theory Spec2Isabelle
  imports Complex_Main "HOL-Library.Char_ord" "HOL-Library.Word"
begin

unbundle bit_operations_syntax

section \<open>Strings and values of the JavaScript source\<close>

text \<open>
  The module \<^verbatim>\<open>src/index.js\<close> works on JavaScript strings. They are modelled as
  \<^typ>\<open>string\<close>, one \<^typ>\<open>char\<close> per code unit, which covers the strings whose code
  units are below 256. The numbers \<^verbatim>\<open>timeout\<close>, \<^verbatim>\<open>maximumRetry\<close>, \<^verbatim>\<open>attempt\<close> and
  \<^verbatim>\<open>delay\<close>, which the module compares, counts up and multiplies by two, are
  integers.
\<close>

definition is_upper :: "char \<Rightarrow> bool" where
  "is_upper c = (CHR ''A'' \<le> c \<and> c \<le> CHR ''Z'')"

definition is_lower :: "char \<Rightarrow> bool" where
  "is_lower c = (CHR ''a'' \<le> c \<and> c \<le> CHR ''z'')"

definition is_digit :: "char \<Rightarrow> bool" where
  "is_digit c = (CHR ''0'' \<le> c \<and> c \<le> CHR ''9'')"

definition is_letter :: "char \<Rightarrow> bool" where
  \<comment> \<open>the class \<^verbatim>\<open>[a-zA-Z]\<close>; under the flag \<^verbatim>\<open>i\<close> it matches the same code units\<close>
  "is_letter c = (is_lower c \<or> is_upper c)"

definition is_line_terminator :: "char \<Rightarrow> bool" where
  \<comment> \<open>the line terminators below 256: line feed and carriage return\<close>
  "is_line_terminator c = (c = CHR 0x0A \<or> c = CHR 0x0D)"

section \<open>Plate validation\<close>

definition SPECIAL :: "char \<Rightarrow> bool" where
  \<comment> \<open>\<^verbatim>\<open>/[^a-zA-Z0-9]/i\<close>: one code unit that is neither a letter nor a digit\<close>
  "SPECIAL c = (\<not> (is_lower c \<or> is_upper c \<or> is_digit c))"

fun replace_SPECIAL :: "string \<Rightarrow> string" where
  \<comment> \<open>\<^verbatim>\<open>plate.replace(SPECIAL, '')\<close>: the pattern has no flag \<^verbatim>\<open>g\<close>, so the
      leftmost match alone is replaced\<close>
  "replace_SPECIAL [] = []"
| "replace_SPECIAL (c # cs) = (if SPECIAL c then cs else c # replace_SPECIAL cs)"

definition PLATE_FORMAT_at :: "string \<Rightarrow> nat \<Rightarrow> bool" where
  \<comment> \<open>\<^verbatim>\<open>/^[a-zA-Z]{3}[0-9]{4}$/im\<close> matched at start position \<open>i\<close>: under the flag
      \<^verbatim>\<open>m\<close> the anchors also match after and before a line terminator\<close>
  "PLATE_FORMAT_at s i =
     (let t = drop i s in
        (i = 0 \<or> is_line_terminator (s ! (i - 1))) \<and>
        7 \<le> length t \<and>
        list_all is_letter (take 3 t) \<and>
        list_all is_digit (take 4 (drop 3 t)) \<and>
        (length t = 7 \<or> is_line_terminator (t ! 7)))"

definition PLATE_FORMAT_test :: "string \<Rightarrow> bool" where
  \<comment> \<open>\<^verbatim>\<open>PLATE_FORMAT.test(s)\<close>: some start position matches\<close>
  "PLATE_FORMAT_test s = list_ex (PLATE_FORMAT_at s) [0..<Suc (length s)]"

datatype 'e error =
    ValidationError string
  | ParseError
  | ServiceError string
  | TransportError 'e
  | BuilderError string
  | AgentError string

definition invalid_plate_message :: string where
  "invalid_plate_message =
     ''Formato de placa inv'' @ [CHR 0xE1] @ ''lido! Utilize o formato '' @
     [CHR 0x22] @ ''AAA9999'' @ [CHR 0x22] @ '' ou '' @
     [CHR 0x22] @ ''AAA-9999'' @ [CHR 0x22] @ ''.''"

definition validate :: "string \<Rightarrow> 'e error + string" where
  "validate plate =
     (let plateToUse = replace_SPECIAL plate in
        if \<not> PLATE_FORMAT_test plateToUse then Inl (ValidationError invalid_plate_message)
        else Inr plateToUse)"

definition plate_pattern :: "string \<Rightarrow> bool" where
  \<comment> \<open>the format of the comment above \<^verbatim>\<open>PLATE_FORMAT\<close>, \<^verbatim>\<open>AAA0000\<close>: the whole
      string is three letters and then four digits\<close>
  "plate_pattern s =
     (length s = 7 \<and> list_all is_letter (take 3 s) \<and> list_all is_digit (drop 3 s))"

section \<open>Configuration\<close>

record proxy_conf =
  proxy_host :: "string option"
  proxy_port :: "int option"

record config =
  host :: string
  endpoint :: string
  serviceVersion :: string
  androidVersion :: string
  secret :: string
  timeout :: int
  maximumRetry :: int
  proxy :: proxy_conf

record configure_args =
  host_arg :: "string option"
  serviceVersion_arg :: "string option"
  androidVersion_arg :: "string option"
  endpoint_arg :: "string option"
  secret_arg :: "string option"
  timeout_arg :: "int option"
  maximumRetry_arg :: "int option"
  proxy_arg :: "proxy_conf option"

definition DEFAULT :: config where
  "DEFAULT =
     \<lparr> host = ''cidadao.sinesp.gov.br'',
       endpoint = ''/sinesp-cidadao/mobile/consultar-placa/'',
       serviceVersion = ''v4'',
       androidVersion = ''8.1.0'',
       secret = ''g8LzUadkEHs7mbRqbX5l'',
       timeout = 0,
       maximumRetry = 0,
       proxy = \<lparr> proxy_host = None, proxy_port = None \<rparr> \<rparr>"

definition or_string :: "string option \<Rightarrow> string \<Rightarrow> string" where
  \<comment> \<open>\<^verbatim>\<open>x || d\<close> on a string: \<^verbatim>\<open>undefined\<close> and the empty string are falsy\<close>
  "or_string x d = (case x of None \<Rightarrow> d | Some s \<Rightarrow> if s = [] then d else s)"

definition or_number :: "int option \<Rightarrow> int \<Rightarrow> int" where
  \<comment> \<open>\<^verbatim>\<open>x || d\<close> on a number: \<^verbatim>\<open>undefined\<close> and zero are falsy\<close>
  "or_number x d = (case x of None \<Rightarrow> d | Some n \<Rightarrow> if n = 0 then d else n)"

definition or_string_opt :: "string option \<Rightarrow> string option \<Rightarrow> string option" where
  "or_string_opt x d = (case x of None \<Rightarrow> d | Some s \<Rightarrow> if s = [] then d else Some s)"

definition or_number_opt :: "int option \<Rightarrow> int option \<Rightarrow> int option" where
  "or_number_opt x d = (case x of None \<Rightarrow> d | Some n \<Rightarrow> if n = 0 then d else Some n)"

definition no_args :: configure_args where
  \<comment> \<open>the parameter default \<^verbatim>\<open>= {}\<close>: every destructured name is \<^verbatim>\<open>undefined\<close>\<close>
  "no_args =
     \<lparr> host_arg = None, serviceVersion_arg = None, androidVersion_arg = None,
       endpoint_arg = None, secret_arg = None, timeout_arg = None,
       maximumRetry_arg = None, proxy_arg = None \<rparr>"

definition configure :: "configure_args option \<Rightarrow> config" where
  \<comment> \<open>the value assigned to the module variable \<^verbatim>\<open>opts\<close>\<close>
  "configure arg =
     (let a = (case arg of None \<Rightarrow> no_args | Some a \<Rightarrow> a);
          p = (case proxy_arg a of
                 None \<Rightarrow> \<lparr> proxy_host = None, proxy_port = None \<rparr>
               | Some p \<Rightarrow> p)
      in \<lparr> host = or_string (host_arg a) (host DEFAULT),
           endpoint = or_string (endpoint_arg a) (endpoint DEFAULT),
           serviceVersion = or_string (serviceVersion_arg a) (serviceVersion DEFAULT),
           androidVersion = or_string (androidVersion_arg a) (serviceVersion DEFAULT),
           secret = or_string (secret_arg a) (secret DEFAULT),
           timeout = or_number (timeout_arg a) (timeout DEFAULT),
           maximumRetry = or_number (maximumRetry_arg a) (maximumRetry DEFAULT),
           proxy = \<lparr> proxy_host = or_string_opt (proxy_host p) (proxy_host (proxy DEFAULT)),
                     proxy_port = or_number_opt (proxy_port p) (proxy_port (proxy DEFAULT)) \<rparr> \<rparr>)"

section \<open>The environment of a search\<close>

text \<open>
  The module reads a random source (\<^verbatim>\<open>Math.random\<close>) and the clock
  (\<^verbatim>\<open>new Date()\<close>), and calls three libraries: the XML builder and parser of
  \<^verbatim>\<open>xml2js\<close> and the HTTP client \<^verbatim>\<open>axios\<close>. They are the fields of an
  environment. The effects of a search are kept in a \<open>world\<close>: how many random
  numbers were drawn, how many requests were issued, and the trace of the calls
  of \<^verbatim>\<open>sleep\<close> and \<^verbatim>\<open>axios.request\<close> in their order.
\<close>

datatype number = Finite real | PlusInfinity | MinusInfinity | NaN

datatype body_value =
    Text string
  | Number number
  | Object "(string \<times> body_value) list"

datatype xml2js =
    Undefined
  | Str string
  | Obj "(string \<times> xml2js) list"
  | Arr "xml2js list"

record date =
  getFullYear :: int
  getMonth :: nat
  getDate :: nat
  getHours :: nat
  getMinutes :: nat
  getSeconds :: nat

record 'x request_options =
  opt_data :: 'x
  opt_headers :: "(string \<times> string) list"
  opt_httpsAgent :: "string option"
  opt_method :: string
  opt_timeout :: int

record 'x http_request =
  req_url :: string
  req_options :: "'x request_options"

datatype 'x event = Sleep int | Request "'x http_request"

record 'x world =
  drawn :: nat
  calls :: nat
  trace :: "'x event list"

text \<open>
  \<open>random_source env i\<close> is the value of the \<open>i\<close>-th call of \<^verbatim>\<open>Math.random\<close>,
  counted from zero, and \<open>now env\<close> the value of \<^verbatim>\<open>new Date()\<close>.
  \<open>Math_sqrt env\<close> and \<open>Math_sin env\<close> are \<^verbatim>\<open>Math.sqrt\<close> and \<^verbatim>\<open>Math.sin\<close>, whose
  results the language leaves to the implementation.
  \<open>buildObject env\<close> is \<^verbatim>\<open>new Builder({ rootName: 'v:Envelope' }).buildObject\<close>:
  \<open>Inr x\<close> when it produces the text \<open>x\<close>, of the type \<open>'x\<close>, and \<open>Inl m\<close> when it
  throws an error with the message \<open>m\<close>, as it does on a character that XML
  forbids. \<open>HttpsProxyAgent env u\<close> is \<^verbatim>\<open>new HttpsProxyAgent(u)\<close>: \<open>Inr a\<close> when
  it constructs the agent \<open>a\<close> and \<open>Inl m\<close> when it throws, as it does on a
  malformed address. \<open>parseString env\<close> is
  \<^verbatim>\<open>parseString\<close> with \<^verbatim>\<open>explicitArray: false\<close>, \<open>None\<close> when it fails.
  \<open>transport env i r\<close> is the outcome of the \<open>i\<close>-th call of \<^verbatim>\<open>axios.request\<close>,
  counted from zero, when it is issued with the request \<open>r\<close>: \<open>Inl e\<close> when the
  call fails with \<open>e\<close>, and \<open>Inr data\<close> when it answers with the body \<open>data\<close>.
\<close>

record ('x, 'e) environment =
  random_source :: "nat \<Rightarrow> real"
  now :: date
  Math_sqrt :: "real \<Rightarrow> real"
  Math_sin :: "real \<Rightarrow> real"
  buildObject :: "body_value \<Rightarrow> string + 'x"
  HttpsProxyAgent :: "string \<Rightarrow> string + string"
  parseString :: "string \<Rightarrow> xml2js option"
  transport :: "nat \<Rightarrow> 'x http_request \<Rightarrow> 'e + string"

definition Math_random :: "('x, 'e) environment \<Rightarrow> 'x world \<Rightarrow> real \<times> 'x world" where
  "Math_random env w = (random_source env (drawn w), w \<lparr> drawn := Suc (drawn w) \<rparr>)"

section \<open>Numbers as text\<close>

fun string_of_nat :: "nat \<Rightarrow> string" where
  "string_of_nat n =
     (if n < 10 then [''0123456789'' ! n]
      else string_of_nat (n div 10) @ [''0123456789'' ! (n mod 10)])"

declare string_of_nat.simps [simp del]

definition string_of_int :: "int \<Rightarrow> string" where
  "string_of_int i = (if i < 0 then CHR ''-'' # string_of_nat (nat (- i)) else string_of_nat (nat i))"

definition slice_last2 :: "string \<Rightarrow> string" where
  \<comment> \<open>\<^verbatim>\<open>s.slice(-2)\<close>\<close>
  "slice_last2 s = drop (length s - 2) s"

section \<open>Doubles\<close>

text \<open>
  \<^verbatim>\<open>Math.random()\<close> gives a double, and the product with 255 is the exact
  product rounded to the nearest double, ties to even. \<open>double_round\<close> is this
  rounding on the non-negative reals below the overflow threshold: the unit in
  the last place of \<open>x\<close> is two to the power of its binary exponent, not below
  \<open>- 1022\<close>, minus 52, and \<open>x\<close> is rounded to a multiple of it. A non-negative
  real is a double when the rounding leaves it unchanged.
\<close>

function exponent_up :: "real \<Rightarrow> int" where
  "exponent_up x = (if 2 \<le> x then exponent_up (x / 2) + 1 else 0)"
  by pat_completeness auto
termination
proof (relation "measure (\<lambda>x. nat \<lceil>x\<rceil>)")
  show "wf (measure (\<lambda>x. nat \<lceil>x\<rceil>))" by simp
next
  fix x :: real
  assume "2 \<le> x"
  then have "x / 2 \<le> x - 1" by simp
  then have "\<lceil>x / 2\<rceil> \<le> \<lceil>x - 1\<rceil>" by (rule ceiling_mono)
  then have "\<lceil>x / 2\<rceil> < \<lceil>x\<rceil>" by simp
  moreover have "0 < \<lceil>x\<rceil>" using \<open>2 \<le> x\<close> by simp
  ultimately show "(x / 2, x) \<in> measure (\<lambda>x. nat \<lceil>x\<rceil>)" by simp
qed

function exponent_down :: "real \<Rightarrow> int" where
  "exponent_down x = (if 0 < x \<and> x < 1 then exponent_down (x * 2) - 1 else 0)"
  by pat_completeness auto
termination
proof (relation "measure (\<lambda>x. nat \<lceil>1 / x\<rceil>)")
  show "wf (measure (\<lambda>x. nat \<lceil>1 / x\<rceil>))" by simp
next
  fix x :: real
  assume a: "0 < x \<and> x < 1"
  then have "1 < 1 / x" by simp
  then have "1 / (x * 2) \<le> 1 / x - 1 / 2" by simp
  have c: "\<lceil>1 / (x * 2)\<rceil> < \<lceil>1 / x\<rceil>"
  proof (cases "2 \<le> 1 / x")
    case True
    then have "1 / (x * 2) \<le> 1 / x - 1" by simp
    then have "\<lceil>1 / (x * 2)\<rceil> \<le> \<lceil>1 / x - 1\<rceil>" by (rule ceiling_mono)
    then show ?thesis by simp
  next
    case False
    then have "1 / (x * 2) \<le> 1" by simp
    then have "\<lceil>1 / (x * 2)\<rceil> \<le> 1" by (simp only: ceiling_le_one)
    moreover have "1 < \<lceil>1 / x\<rceil>" using \<open>1 < 1 / x\<close> by (simp only: less_ceiling_iff of_int_1)
    ultimately show ?thesis by linarith
  qed
  moreover have "0 < \<lceil>1 / x\<rceil>" using a by simp
  ultimately show "(x * 2, x) \<in> measure (\<lambda>x. nat \<lceil>1 / x\<rceil>)" by simp
qed

declare exponent_up.simps [simp del] exponent_down.simps [simp del]

definition pow2 :: "int \<Rightarrow> real" where
  "pow2 k = (if 0 \<le> k then 2 ^ nat k else 1 / 2 ^ nat (- k))"

definition round_half_even :: "real \<Rightarrow> int" where
  "round_half_even q =
     (let f = \<lfloor>q\<rfloor>; d = q - of_int f in
        if d < 1 / 2 then f else if 1 / 2 < d then f + 1 else if even f then f else f + 1)"

definition double_ulp :: "real \<Rightarrow> real" where
  "double_ulp x = pow2 (max (if 1 \<le> x then exponent_up x else exponent_down x) (- 1022) - 52)"

definition double_round :: "real \<Rightarrow> real" where
  "double_round x = of_int (round_half_even (x / double_ulp x)) * double_ulp x"

definition is_double :: "real \<Rightarrow> bool" where
  "is_double x = (double_round x = x)"

definition double_of :: "real \<Rightarrow> real" where
  \<comment> \<open>the rounding of a real of either sign\<close>
  "double_of x = (if x < 0 then - double_round (- x) else double_round x)"

section \<open>The client identity\<close>

definition generateRandomOctet :: "('x, 'e) environment \<Rightarrow> 'x world \<Rightarrow> int \<times> 'x world" where
  "generateRandomOctet env w =
     (let (r, w') = Math_random env w in (\<lfloor>double_round (r * 255)\<rfloor> + 1, w'))"

definition generateIPAddress :: "('x, 'e) environment \<Rightarrow> 'x world \<Rightarrow> string \<times> 'x world" where
  "generateIPAddress env w =
     (let (octet1, w1) = generateRandomOctet env w;
          (octet2, w2) = generateRandomOctet env w1;
          (octet3, w3) = generateRandomOctet env w2;
          (octet4, w4) = generateRandomOctet env w3
      in (string_of_int octet1 @ ''.'' @ string_of_int octet2 @ ''.'' @
          string_of_int octet3 @ ''.'' @ string_of_int octet4, w4))"

text \<open>
  The coordinates: every literal, quotient, product and difference is rounded to
  a double, or to an infinity when the rounded value is beyond the largest
  double, and the square root and the sine are those of the environment. A
  square root that is zero gives the quotient \<^verbatim>\<open>2000 / 0\<close>, which is \<^verbatim>\<open>Infinity\<close>.
\<close>

definition to_number :: "real \<Rightarrow> number" where
  "to_number x =
     (let y = double_of x in
        if 2 ^ 1024 \<le> y then PlusInfinity
        else if y \<le> - (2 ^ 1024) then MinusInfinity
        else Finite y)"

fun times_number :: "number \<Rightarrow> real \<Rightarrow> number" where
  "times_number (Finite a) s = to_number (a * s)"
| "times_number PlusInfinity s =
     (if 0 < s then PlusInfinity else if s < 0 then MinusInfinity else NaN)"
| "times_number MinusInfinity s =
     (if 0 < s then MinusInfinity else if s < 0 then PlusInfinity else NaN)"
| "times_number NaN s = NaN"

fun minus_number :: "number \<Rightarrow> real \<Rightarrow> number" where
  "minus_number (Finite x) c = to_number (x - double_of c)"
| "minus_number n c = n"

definition generateCoordinate :: "('x, 'e) environment \<Rightarrow> 'x world \<Rightarrow> number \<times> 'x world" where
  "generateCoordinate env w =
     (let (u, w1) = Math_random env w;
          root = Math_sqrt env u;
          seed = (if root = 0 then PlusInfinity else to_number (2000 / root));
          (v, w2) = Math_random env w1
      in (times_number seed
            (Math_sin env (double_of (double_of (2 * double_of 3.141592654) * v))), w2))"

definition generateLatitude :: "('x, 'e) environment \<Rightarrow> 'x world \<Rightarrow> number \<times> 'x world" where
  "generateLatitude env w =
     (let (c, w') = generateCoordinate env w in (minus_number c 38.5290245, w'))"

definition generateLongitude :: "('x, 'e) environment \<Rightarrow> 'x world \<Rightarrow> number \<times> 'x world" where
  "generateLongitude env w =
     (let (c, w') = generateCoordinate env w in (minus_number c 3.7506985, w'))"

definition pad2 :: "nat \<Rightarrow> string" where
  \<comment> \<open>\<^verbatim>\<open>(`00${n}`).slice(-2)\<close>\<close>
  "pad2 n = slice_last2 (''00'' @ string_of_nat n)"

definition formatDate :: "date \<Rightarrow> string" where
  "formatDate d =
     (let year = getFullYear d;
          month = pad2 (getMonth d + 1);
          day = pad2 (getDate d);
          hour = pad2 (getHours d);
          minute = pad2 (getMinutes d);
          second = pad2 (getSeconds d)
      in string_of_int year @ ''-'' @ month @ ''-'' @ day @ '' '' @
         hour @ '':'' @ minute @ '':'' @ second)"

section \<open>The token\<close>

text \<open>
  \<^verbatim>\<open>createHmac('sha1', key).update(msg).digest('hex')\<close> is the HMAC of RFC 2104
  over the SHA-1 of FIPS 180-4, on the UTF-8 bytes of the two strings, printed
  in lowercase hexadecimal digits.
\<close>

type_synonym byte = "8 word"

definition utf8 :: "string \<Rightarrow> byte list" where
  "utf8 s =
     concat (map (\<lambda>c. let n = (of_char c :: nat) in
                   if n < 128 then [of_nat n]
                   else [of_nat (192 + n div 64), of_nat (128 + n mod 64)]) s)"

definition be32 :: "byte \<Rightarrow> byte \<Rightarrow> byte \<Rightarrow> byte \<Rightarrow> 32 word" where
  "be32 a b c d = push_bit 24 (ucast a) OR push_bit 16 (ucast b) OR push_bit 8 (ucast c) OR ucast d"

fun words_of_bytes :: "byte list \<Rightarrow> 32 word list" where
  "words_of_bytes (a # b # c # d # bs) = be32 a b c d # words_of_bytes bs"
| "words_of_bytes bs = []"

definition bytes_of_word :: "32 word \<Rightarrow> byte list" where
  "bytes_of_word w = [ucast (drop_bit 24 w), ucast (drop_bit 16 w), ucast (drop_bit 8 w), ucast w]"

definition bytes_of_length :: "64 word \<Rightarrow> byte list" where
  "bytes_of_length n = map (\<lambda>i. ucast (drop_bit (8 * i) n)) [7, 6, 5, 4, 3, 2, 1, 0]"

definition sha1_pad :: "byte list \<Rightarrow> byte list" where
  "sha1_pad m =
     m @ [0x80] @ replicate ((119 - length m mod 64) mod 64) 0 @
     bytes_of_length (of_nat (8 * length m))"

definition rotl :: "nat \<Rightarrow> 32 word \<Rightarrow> 32 word" where
  \<comment> \<open>the circular left shift of FIPS 180-4\<close>
  "rotl n x = push_bit n x OR drop_bit (32 - n) x"

fun sha1_schedule :: "nat \<Rightarrow> 32 word list \<Rightarrow> 32 word list" where
  \<comment> \<open>the message schedule, latest word first: \<open>W\<^sub>t\<close> is made of \<open>W\<^sub>t\<^sub>-\<^sub>3\<close>, \<open>W\<^sub>t\<^sub>-\<^sub>8\<close>,
      \<open>W\<^sub>t\<^sub>-\<^sub>1\<^sub>4\<close> and \<open>W\<^sub>t\<^sub>-\<^sub>1\<^sub>6\<close>\<close>
  "sha1_schedule 0 ws = ws"
| "sha1_schedule (Suc n) ws =
     sha1_schedule n (rotl 1 (ws ! 2 XOR ws ! 7 XOR ws ! 13 XOR ws ! 15) # ws)"

definition sha1_f :: "nat \<Rightarrow> 32 word \<Rightarrow> 32 word \<Rightarrow> 32 word \<Rightarrow> 32 word" where
  "sha1_f t b c d =
     (if t < 20 then (b AND c) OR (NOT b AND d)
      else if t < 40 then b XOR c XOR d
      else if t < 60 then (b AND c) OR (b AND d) OR (c AND d)
      else b XOR c XOR d)"

definition sha1_k :: "nat \<Rightarrow> 32 word" where
  "sha1_k t =
     (if t < 20 then 0x5A827999 else if t < 40 then 0x6ED9EBA1
      else if t < 60 then 0x8F1BBCDC else 0xCA62C1D6)"

type_synonym sha1_state = "32 word \<times> 32 word \<times> 32 word \<times> 32 word \<times> 32 word"

fun sha1_rounds :: "nat \<Rightarrow> 32 word list \<Rightarrow> sha1_state \<Rightarrow> sha1_state" where
  "sha1_rounds t [] st = st"
| "sha1_rounds t (w # ws) (a, b, c, d, e) =
     sha1_rounds (t + 1) ws
       (rotl 5 a + sha1_f t b c d + e + sha1_k t + w, a, rotl 30 b, c, d)"

definition sha1_block :: "byte list \<Rightarrow> sha1_state \<Rightarrow> sha1_state" where
  "sha1_block blk st =
     (case st of (h0, h1, h2, h3, h4) \<Rightarrow>
        (case sha1_rounds 0 (rev (sha1_schedule 64 (rev (words_of_bytes blk)))) st of
           (a, b, c, d, e) \<Rightarrow> (h0 + a, h1 + b, h2 + c, h3 + d, h4 + e)))"

fun sha1_blocks :: "byte list \<Rightarrow> sha1_state \<Rightarrow> sha1_state" where
  "sha1_blocks [] st = st"
| "sha1_blocks (b # bs) st = sha1_blocks (drop 64 (b # bs)) (sha1_block (take 64 (b # bs)) st)"

definition sha1 :: "byte list \<Rightarrow> byte list" where
  "sha1 m =
     (case sha1_blocks (sha1_pad m)
             (0x67452301, 0xEFCDAB89, 0x98BADCFE, 0x10325476, 0xC3D2E1F0) of
        (h0, h1, h2, h3, h4) \<Rightarrow> concat (map bytes_of_word [h0, h1, h2, h3, h4]))"

definition hmac_sha1 :: "byte list \<Rightarrow> byte list \<Rightarrow> byte list" where
  "hmac_sha1 key msg =
     (let k0 = (if 64 < length key then sha1 key else key);
          k = k0 @ replicate (64 - length k0) 0
      in sha1 (map (\<lambda>b. b XOR 0x5C) k @ sha1 (map (\<lambda>b. b XOR 0x36) k @ msg)))"

definition hex_digit :: "nat \<Rightarrow> char" where
  "hex_digit n = ''0123456789abcdef'' ! n"

definition hex :: "byte list \<Rightarrow> string" where
  "hex bs = concat (map (\<lambda>b. [hex_digit (unat b div 16), hex_digit (unat b mod 16)]) bs)"

definition createHmac_sha1_hex :: "string \<Rightarrow> string \<Rightarrow> string" where
  "createHmac_sha1_hex key msg = hex (hmac_sha1 (utf8 key) (utf8 msg))"

definition generateToken :: "config \<Rightarrow> string \<Rightarrow> string" where
  "generateToken opts plate =
     (let secret' = ''#'' @ androidVersion opts @ ''#'' @ secret opts
      in createHmac_sha1_hex (plate @ secret') plate)"

definition is_lower_hex :: "char \<Rightarrow> bool" where
  "is_lower_hex c = (c \<in> set ''0123456789abcdef'')"

definition spec_generateToken :: "string \<Rightarrow> string \<Rightarrow> string \<Rightarrow> string" where
  \<comment> \<open>the token as the specification words it, a function of the plate, the
      Android version and the secret\<close>
  "spec_generateToken plate android sec =
     hex (hmac_sha1 (utf8 (plate @ ''#'' @ android @ ''#'' @ sec)) (utf8 plate))"

definition norm32 :: "32 word \<Rightarrow> 32 word" where
  \<comment> \<open>the word itself; on a numeral it is rewritten to the numeral below \<open>2\<^sup>3\<^sup>2\<close>
      when a digest is evaluated\<close>
  "norm32 x = x"

section \<open>Decoding the response\<close>

definition is_whitespace :: "char \<Rightarrow> bool" where
  \<comment> \<open>the white space and line terminators below 256 that \<^verbatim>\<open>parseInt\<close> skips\<close>
  "is_whitespace c = (c \<in> set [CHR 0x09, CHR 0x0A, CHR 0x0B, CHR 0x0C, CHR 0x0D, CHR 0x20, CHR 0xA0])"

definition digit_value :: "char \<Rightarrow> nat" where
  "digit_value c = of_char c - 48"

definition digits_value :: "string \<Rightarrow> nat" where
  "digits_value ds = foldl (\<lambda>a c. 10 * a + digit_value c) 0 ds"

definition parseInt10 :: "string \<Rightarrow> int option" where
  \<comment> \<open>\<^verbatim>\<open>parseInt(s, 10)\<close>; \<open>None\<close> is \<^verbatim>\<open>NaN\<close>\<close>
  "parseInt10 s =
     (let s1 = dropWhile is_whitespace s;
          (sign, s2) = (case s1 of
                          c # r \<Rightarrow> if c = CHR ''-'' then (- 1, r)
                                   else if c = CHR ''+'' then (1, r) else (1, s1)
                        | [] \<Rightarrow> (1, s1));
          ds = takeWhile is_digit s2
      in if ds = [] then None else Some (sign * int (digits_value ds)))"

fun join_comma :: "string list \<Rightarrow> string" where
  "join_comma [] = []"
| "join_comma [s] = s"
| "join_comma (s # ss) = s @ '','' @ join_comma ss"

fun toString :: "xml2js \<Rightarrow> string" where
  "toString Undefined = ''undefined''"
| "toString (Str s) = s"
| "toString (Obj fs) = ''[object Object]''"
| "toString (Arr vs) = join_comma (map (\<lambda>v. if v = Undefined then [] else toString v) vs)"

definition get_prop :: "xml2js \<Rightarrow> string \<Rightarrow> xml2js option" where
  \<comment> \<open>reading a property; \<open>None\<close> is the \<^verbatim>\<open>TypeError\<close> of reading one of \<^verbatim>\<open>undefined\<close>\<close>
  "get_prop v k =
     (case v of
        Undefined \<Rightarrow> None
      | Obj fs \<Rightarrow> Some (case map_of fs k of None \<Rightarrow> Undefined | Some x \<Rightarrow> x)
      | _ \<Rightarrow> Some Undefined)"

fun get_path :: "xml2js \<Rightarrow> string list \<Rightarrow> xml2js option" where
  "get_path v [] = Some v"
| "get_path v (k # ks) = (case get_prop v k of None \<Rightarrow> None | Some x \<Rightarrow> get_path x ks)"

definition Error_message :: "xml2js \<Rightarrow> string" where
  \<comment> \<open>the message of \<^verbatim>\<open>Error(v)\<close>\<close>
  "Error_message v = (if v = Undefined then [] else toString v)"

definition normalize_response :: "('x, 'e) environment \<Rightarrow> string \<Rightarrow> 'e error + xml2js" where
  "normalize_response env returnedXML =
     (case parseString env returnedXML of
        None \<Rightarrow> Inl ParseError
      | Some doc \<Rightarrow>
          (case get_path doc [''soap:Envelope'', ''soap:Body'', ''ns2:getStatusResponse'', ''return''] of
             None \<Rightarrow> Inl ParseError
           | Some envelope \<Rightarrow>
               (case get_prop envelope ''codigoRetorno'' of
                  None \<Rightarrow> Inl ParseError
                | Some code \<Rightarrow>
                    if parseInt10 (toString code) \<noteq> Some 0
                    then (case get_prop envelope ''mensagemRetorno'' of
                            None \<Rightarrow> Inl ParseError
                          | Some message \<Rightarrow> Inl (ServiceError (Error_message message)))
                    else Inr envelope)))"

section \<open>The transport\<close>

definition sleep :: "int \<Rightarrow> 'x world \<Rightarrow> 'x world" where
  \<comment> \<open>\<^verbatim>\<open>await sleep(ms)\<close>: the call is recorded with its delay\<close>
  "sleep ms w = w \<lparr> trace := trace w @ [Sleep ms] \<rparr>"

definition axios_request ::
  "('x, 'e) environment \<Rightarrow> 'x http_request \<Rightarrow> 'x world \<Rightarrow> ('e + string) \<times> 'x world" where
  \<comment> \<open>\<^verbatim>\<open>await axios.request(r)\<close>: the outcome of this call of the transport; the
      call is counted and recorded\<close>
  "axios_request env r w =
     (transport env (calls w) r, w \<lparr> calls := Suc (calls w), trace := trace w @ [Request r] \<rparr>)"

function retry ::
  "('x, 'e) environment \<Rightarrow> config \<Rightarrow> string \<Rightarrow> 'x request_options \<Rightarrow> int \<Rightarrow> int \<Rightarrow>
   'x world \<Rightarrow> ('e + string) \<times> 'x world" where
  "retry env opts url options attempt delay w =
     (let w1 = sleep delay w;
          (result, w2) = axios_request env \<lparr> req_url = url, req_options = options \<rparr> w1
      in case result of
           Inr data \<Rightarrow> (Inr data, w2)
         | Inl e \<Rightarrow>
             if attempt \<ge> maximumRetry opts then (Inl e, w2)
             else retry env opts url options (attempt + 1) ((if delay = 0 then 1000 else delay) * 2) w2)"
  by pat_completeness auto
termination
  by (relation "measure (\<lambda>(env, opts, url, options, attempt, delay, w). nat (maximumRetry opts - attempt))")
    auto

declare retry.simps [simp del]

definition httpsAgent :: "('x, 'e) environment \<Rightarrow> config \<Rightarrow> string + string option" where
  \<comment> \<open>the constant \<^verbatim>\<open>httpsAgent\<close> of \<^verbatim>\<open>request\<close>: \<open>Inr None\<close> is \<^verbatim>\<open>null\<close>, and \<open>Inl m\<close>
      is the error that the constructor of the agent throws\<close>
  "httpsAgent env opts =
     (case proxy_host (proxy opts) of
        None \<Rightarrow> Inr None
      | Some h \<Rightarrow>
          if h = [] then Inr None
          else (case HttpsProxyAgent env
                       (''http://'' @ h @ '':'' @
                        (case proxy_port (proxy opts) of
                           None \<Rightarrow> ''undefined'' | Some n \<Rightarrow> string_of_int n)) of
                  Inl m \<Rightarrow> Inl m
                | Inr a \<Rightarrow> Inr (Some a)))"

definition request :: "('x, 'e) environment \<Rightarrow> config \<Rightarrow> 'x \<Rightarrow> 'x world \<Rightarrow> ('e error + xml2js) \<times> 'x world" where
  "request env opts data w =
     (let url = ''https://'' @ host opts @ endpoint opts @ serviceVersion opts;
          headers =
            [(''Content-Type'', ''application/x-www-form-urlencoded; charset=UTF-8''),
             (''User-Agent'', ''SinespCidadao / 3.0.2.1 CFNetwork / 758.2.8 Darwin / 15.0.0''),
             (''Host'', host opts)]
      in case httpsAgent env opts of
           Inl m \<Rightarrow> (Inl (AgentError m), w)
         | Inr agent \<Rightarrow>
             (case retry env opts url
                     \<lparr> opt_data = data, opt_headers = headers, opt_httpsAgent = agent,
                       opt_method = ''POST'', opt_timeout = timeout opts \<rparr> 0 0 w of
                (Inl e, w') \<Rightarrow> (Inl (TransportError e), w')
              | (Inr response, w') \<Rightarrow> (normalize_response env response, w')))"

section \<open>The request envelope and the search\<close>

definition body_object ::
  "config \<Rightarrow> string \<Rightarrow> string \<Rightarrow> number \<Rightarrow> number \<Rightarrow> string \<Rightarrow> string \<Rightarrow> body_value" where
  \<comment> \<open>the object \<^verbatim>\<open>body\<close> of \<^verbatim>\<open>generateBody\<close>\<close>
  "body_object opts plateToUse ip latitude longitude token date =
     Object
       [(''$'', Object [(''xmlns:v'', Text ''http://schemas.xmlsoap.org/soap/envelope/'')]),
        (''v:Header'', Object
           [(''b'', Text ''LGE Nexus 5''),
            (''c'', Text ''ANDROID''),
            (''d'', Text (androidVersion opts)),
            (''e'', Text ''4.3.2''),
            (''f'', Text ip),
            (''g'', Text token),
            (''h'', Number longitude),
            (''i'', Number latitude),
            (''j'', Text []),
            (''k'', Text []),
            (''l'', Text date),
            (''m'', Text ''8797e74f0d6eb7b1ff3dc114d4aa12d3'')]),
        (''v:Body'', Object
           [(''$'', Object [(''xmlns:n0'', Text ''http://soap.ws.placa.service.sinesp.serpro.gov.br/'')]),
            (''n0:getStatus'', Object [(''a'', Text plateToUse)])])]"

definition generateBody :: "('x, 'e) environment \<Rightarrow> config \<Rightarrow> string \<Rightarrow> 'x world \<Rightarrow> ('e error + 'x) \<times> 'x world" where
  "generateBody env opts plate w =
     (case validate plate of
        Inl e \<Rightarrow> (Inl e, w)
      | Inr plateToUse \<Rightarrow>
          (let (ip, w1) = generateIPAddress env w;
               (latitude, w2) = generateLatitude env w1;
               (longitude, w3) = generateLongitude env w2;
               token = generateToken opts plateToUse;
               date = formatDate (now env);
               body = body_object opts plateToUse ip latitude longitude token date
           in case buildObject env body of
                Inl m \<Rightarrow> (Inl (BuilderError m), w3)
              | Inr xml \<Rightarrow> (Inr xml, w3)))"

definition search :: "('x, 'e) environment \<Rightarrow> config \<Rightarrow> string option \<Rightarrow> 'x world \<Rightarrow> ('e error + xml2js) \<times> 'x world" where
  \<comment> \<open>the argument \<open>None\<close> is a call without argument, which takes the default \<^verbatim>\<open>''\<close>\<close>
  "search env opts plate w =
     (let plate' = (case plate of None \<Rightarrow> [] | Some p \<Rightarrow> p) in
        case generateBody env opts plate' w of
          (Inl e, w') \<Rightarrow> (Inl e, w')
        | (Inr body, w') \<Rightarrow> request env opts body w')"

section \<open>What the specification says, and a stubbed environment\<close>

text \<open>
  The delays of the specification, by the number of the attempt counted from
  zero: none before the first attempt, 2000 ms before the second, and the
  double of the previous one from then on. \<open>spec_trace r n\<close> is the trace of
  \<open>n\<close> attempts of the request \<open>r\<close>, each after its delay.
\<close>

fun spec_delay :: "nat \<Rightarrow> int" where
  "spec_delay 0 = 0"
| "spec_delay (Suc 0) = 2000"
| "spec_delay (Suc (Suc n)) = 2 * spec_delay (Suc n)"

definition spec_trace :: "'x http_request \<Rightarrow> nat \<Rightarrow> 'x event list" where
  "spec_trace r n = concat (map (\<lambda>i. [Sleep (spec_delay i), Request r]) [0..<n])"

text \<open>
  The trace that \<open>retry\<close> leaves when it makes \<open>n\<close> attempts from the delay \<open>d\<close>.
\<close>

fun attempts_trace :: "'x http_request \<Rightarrow> int \<Rightarrow> nat \<Rightarrow> 'x event list" where
  "attempts_trace r d 0 = []"
| "attempts_trace r d (Suc n) = Sleep d # Request r # attempts_trace r ((if d = 0 then 1000 else d) * 2) n"




text \<open>
  The fields of a return value other than the status code and the status
  message, as the specification names them: the remaining fields.
\<close>

definition spec_remaining_fields :: "(string \<times> xml2js) list \<Rightarrow> (string \<times> xml2js) list" where
  "spec_remaining_fields fs =
     filter (\<lambda>(k, v). k \<noteq> ''codigoRetorno'' \<and> k \<noteq> ''mensagemRetorno'') fs"

text \<open>
  A stubbed environment for the examples: the random source always gives one
  half, the builder gives a fixed text, the agent is its address, the parser
  knows a response with status 0 and one with status 7, and the transport
  answers its \<open>i\<close>-th call with \<open>outcome i\<close>.
\<close>

definition stub_date :: date where
  "stub_date = \<lparr> getFullYear = 2020, getMonth = 0, getDate = 31, getHours = 9, getMinutes = 5, getSeconds = 0 \<rparr>"

definition stub_vehicle :: "(string \<times> xml2js) list" where
  "stub_vehicle =
     [(''codigoRetorno'', Str ''0''), (''mensagemRetorno'', Str ''Sem erros.''), (''modelo'', Str ''GOL'')]"

definition stub_refusal :: "(string \<times> xml2js) list" where
  "stub_refusal =
     [(''codigoRetorno'', Str ''7''), (''mensagemRetorno'', Str (''Placa inv'' @ [CHR 0xE1] @ ''lida''))]"

definition stub_response :: "(string \<times> xml2js) list \<Rightarrow> xml2js" where
  "stub_response fs =
     Obj [(''soap:Envelope'', Obj [(''soap:Body'', Obj [(''ns2:getStatusResponse'', Obj [(''return'', Obj fs)])])])]"

definition stub_parseString :: "string \<Rightarrow> xml2js option" where
  "stub_parseString s =
     (if s = ''vehicle'' then Some (stub_response stub_vehicle)
      else if s = ''refusal'' then Some (stub_response stub_refusal)
      else None)"

definition stub_environment :: "(nat \<Rightarrow> string + string) \<Rightarrow> (string, string) environment" where
  "stub_environment outcome =
     \<lparr> random_source = (\<lambda>i. 1 / 2), now = stub_date, Math_sqrt = sqrt, Math_sin = sin,
       buildObject = (\<lambda>b. Inr ''envelope''), HttpsProxyAgent = (\<lambda>u. Inr u),
       parseString = stub_parseString, transport = (\<lambda>i r. outcome i) \<rparr>"

definition answering_environment :: "(string, string) environment" where
  "answering_environment = stub_environment (\<lambda>i. Inr ''vehicle'')"

definition new_world :: "'x world" where
  "new_world = \<lparr> drawn = 0, calls = 0, trace = [] \<rparr>"

section \<open>Properties of plate validation\<close>

lemmas validate_eval =
  validate_def PLATE_FORMAT_test_def PLATE_FORMAT_at_def SPECIAL_def plate_pattern_def
  is_letter_def is_lower_def is_upper_def is_digit_def is_line_terminator_def Let_def

text \<open>
  What the validation does ensure: a plate of the format is accepted, also when
  one character that is neither a letter nor a digit stands somewhere in it, and
  a returned plate that holds no line terminator has the format.
\<close>

lemma plate_pattern_test: "plate_pattern p \<Longrightarrow> PLATE_FORMAT_test p"
proof -
  assume p: "plate_pattern p"
  then have "length p = 7" by (simp add: plate_pattern_def)
  then have "take 4 (drop 3 p) = drop 3 p" by simp
  with p have "PLATE_FORMAT_at p 0"
    by (simp add: PLATE_FORMAT_at_def plate_pattern_def)
  then show ?thesis
    unfolding PLATE_FORMAT_test_def list_ex_iff by (intro bexI [of _ 0]) simp_all
qed

lemma validate_accepts:
  "plate_pattern (replace_SPECIAL plate) \<Longrightarrow> validate plate = Inr (replace_SPECIAL plate)"
  by (simp add: validate_def plate_pattern_test)

lemma test_single_line:
  assumes "PLATE_FORMAT_test p" and "\<not> list_ex is_line_terminator p"
  shows "plate_pattern p"
proof -
  from assms(1) obtain i where i: "i \<le> length p" and at: "PLATE_FORMAT_at p i"
    unfolding PLATE_FORMAT_test_def list_ex_iff by (auto simp: less_Suc_eq_le simp del: upt_Suc)
  have nl: "\<And>j. j < length p \<Longrightarrow> \<not> is_line_terminator (p ! j)"
    using assms(2) unfolding list_ex_iff by (meson nth_mem)
  have i0: "i = 0"
  proof (rule ccontr)
    assume "i \<noteq> 0"
    then have "is_line_terminator (p ! (i - 1))" using at by (simp add: PLATE_FORMAT_at_def Let_def)
    moreover have "i - 1 < length p" using i \<open>i \<noteq> 0\<close> by simp
    ultimately show False using nl by blast
  qed
  have len7: "7 \<le> length p" using at i0 by (simp add: PLATE_FORMAT_at_def Let_def)
  have "length p = 7"
  proof (rule ccontr)
    assume "length p \<noteq> 7"
    then have "is_line_terminator (p ! 7)" using at i0 by (simp add: PLATE_FORMAT_at_def Let_def)
    moreover have "7 < length p" using len7 \<open>length p \<noteq> 7\<close> by simp
    ultimately show False using nl by blast
  qed
  then have "take 4 (drop 3 p) = drop 3 p" by simp
  with at i0 \<open>length p = 7\<close> show ?thesis
    by (simp add: PLATE_FORMAT_at_def plate_pattern_def Let_def)
qed

lemma validate_single_line:
  assumes "validate plate = (Inr p :: 'e error + string)" and "\<not> list_ex is_line_terminator p"
  shows "plate_pattern p"
proof -
  from assms(1) have "PLATE_FORMAT_test p"
    by (auto simp: validate_def Let_def split: if_splits)
  then show ?thesis using assms(2) by (rule test_single_line)
qed

text \<open>
  Claim C1: a string that is three letters and four digits with other characters
  in between is stripped of all of them and accepted, and every other string is
  refused. The code strips the leftmost such character only. The plate
  \<^verbatim>\<open>A-B-C1234\<close> is refused although it is \<^verbatim>\<open>ABC1234\<close> with two hyphens in
  between, and the string made of a line feed, \<^verbatim>\<open>ABC1234\<close>, a line feed and
  \<^verbatim>\<open>xyz\<close>, which is of the other kind, is accepted with its second line.
\<close>

theorem validate_strips_first_only:
  "validate ''A-B-C1234'' = (Inl (ValidationError invalid_plate_message) :: unit error + string) \<and>
   replace_SPECIAL ''A-B-C1234'' = ''AB-C1234'' \<and>
   validate (CHR 0x0A # ''ABC1234'' @ CHR 0x0A # ''xyz'') =
     (Inr (''ABC1234'' @ CHR 0x0A # ''xyz'') :: unit error + string)"
  by (simp add: validate_eval)

text \<open>
  Claim C7: every plate that \<open>validate\<close> returns has length 7 and is three letters
  and then four digits. On \<^verbatim>\<open>ABC-1234\<close> followed by a line feed the code returns
  \<^verbatim>\<open>ABC1234\<close> with the line feed, of length 8: the hyphen is the one character
  removed, and under the flag \<^verbatim>\<open>m\<close> the anchor \<^verbatim>\<open>$\<close> matches before the line feed.
\<close>

theorem validate_returns_line_feed:
  "validate (''ABC-1234'' @ [CHR 0x0A]) = (Inr (''ABC1234'' @ [CHR 0x0A]) :: unit error + string) \<and>
   length (''ABC1234'' @ [CHR 0x0A]) = 8 \<and>
   \<not> plate_pattern (''ABC1234'' @ [CHR 0x0A])"
  by (simp add: validate_eval)

section \<open>Properties of the configuration\<close>

text \<open>
  Claim C2: \<open>configure\<close> without arguments sets every field to its documented
  default. The code takes the fallback of \<open>androidVersion\<close> from
  \<^verbatim>\<open>DEFAULT.serviceVersion\<close>, so the field becomes \<^verbatim>\<open>v4\<close> and not \<^verbatim>\<open>8.1.0\<close>;
  the other seven fields get their defaults.
\<close>

theorem configure_no_arguments:
  "configure None = DEFAULT \<lparr> androidVersion := ''v4'' \<rparr> \<and>
   androidVersion (configure None) = ''v4'' \<and>
   androidVersion DEFAULT = ''8.1.0''"
  by (simp add: configure_def DEFAULT_def no_args_def or_string_def or_number_def
      or_string_opt_def or_number_opt_def)

section \<open>Properties of the token\<close>

lemma length_sha1: "length (sha1 m) = 20"
  by (simp add: sha1_def bytes_of_word_def split: prod.splits)

lemma length_hmac_sha1: "length (hmac_sha1 key msg) = 20"
  by (simp add: hmac_sha1_def Let_def length_sha1)

lemma length_hex: "length (hex bs) = 2 * length bs"
  by (induction bs) (simp_all add: hex_def)

lemma hex_digit_lower: "n < 16 \<Longrightarrow> is_lower_hex (hex_digit n)"
  unfolding is_lower_hex_def hex_digit_def by (rule nth_mem) simp

lemma hex_lower: "list_all is_lower_hex (hex bs)"
proof (induction bs)
  case Nil
  show ?case by (simp add: hex_def)
next
  case (Cons b bs)
  have "unat b < 256" using unsigned_less [of b] by simp
  then have "unat b div 16 < 16" by simp
  moreover have "unat b mod 16 < 16" by simp
  ultimately show ?case using Cons
    by (simp add: hex_def hex_digit_lower)
qed

text \<open>
  Evaluating a digest: the equations below compute a block on numerals, each new
  word reduced below \<open>2\<^sup>3\<^sup>2\<close>.
\<close>

lemma of_nat_mod_word: "(of_nat (n mod 2 ^ 32) :: 32 word) = of_nat n"
  by (simp add: word_of_nat_eq_iff take_bit_eq_mod)

lemma norm32_numeral: "norm32 (numeral k) = of_nat (numeral k mod 4294967296)"
proof -
  have "(of_nat (numeral k mod 2 ^ 32) :: 32 word) = of_nat (numeral k)"
    by (rule of_nat_mod_word)
  moreover have "(2::nat) ^ 32 = 4294967296" by simp
  ultimately have "(of_nat (numeral k mod 4294967296) :: 32 word) = of_nat (numeral k)"
    by (simp only:)
  then show ?thesis by (simp only: norm32_def of_nat_numeral)
qed

lemma norm32_simps: "norm32 0 = 0" "norm32 1 = 1"
  by (simp_all add: norm32_def)

lemma sha1_schedule_eval:
  "sha1_schedule n ws =
     (if n = 0 then ws
      else sha1_schedule (n - 1) (norm32 (rotl 1 (ws ! 2 XOR ws ! 7 XOR ws ! 13 XOR ws ! 15)) # ws))"
  by (cases n) (simp_all add: norm32_def)

lemma sha1_rounds_eval:
  "sha1_rounds t (w # ws) (a, b, c, d, e) =
     sha1_rounds (t + 1) ws
       (norm32 (rotl 5 a + sha1_f t b c d + e + sha1_k t + w), a, norm32 (rotl 30 b), c, d)"
  by (simp add: norm32_def)

lemma sha1_block_eval:
  "sha1_block blk (h0, h1, h2, h3, h4) =
     (case sha1_rounds 0 (rev (sha1_schedule 64 (rev (words_of_bytes blk)))) (h0, h1, h2, h3, h4) of
        (a, b, c, d, e) \<Rightarrow> (norm32 (h0 + a), norm32 (h1 + b), norm32 (h2 + c), norm32 (h3 + d), norm32 (h4 + e)))"
  by (simp add: sha1_block_def norm32_def)

lemma sha1_f_eval:
  "sha1_f t b c d =
     (if t < 20 then norm32 ((b AND c) OR (NOT b AND d))
      else if t < 40 then b XOR c XOR d
      else if t < 60 then (b AND c) OR (b AND d) OR (c AND d)
      else b XOR c XOR d)"
  by (simp add: sha1_f_def norm32_def)

lemmas sha1_eval =
  sha1_block_eval sha1_schedule_eval sha1_rounds_eval sha1_f_eval norm32_numeral norm32_simps
  be32_def rotl_def sha1_k_def

lemma replicate_eval: "replicate n x = (if n = 0 then [] else x # replicate (n - 1) x)"
  by (cases n) simp_all

text \<open>
  The second test case of RFC 2202 for HMAC-SHA-1: the key \<^verbatim>\<open>Jefe\<close> and the data
  \<^verbatim>\<open>what do ya want for nothing?\<close>.
\<close>

lemma rfc2202_key_length: "length (utf8 ''Jefe'') = 4"
  by (simp add: utf8_def)

lemma rfc2202_key: "(if 64 < length (utf8 ''Jefe'') then sha1 (utf8 ''Jefe'') else utf8 ''Jefe'') = utf8 ''Jefe''"
  unfolding rfc2202_key_length by simp

lemma rfc2202_ipad:
  "map (\<lambda>b. b XOR 0x36) (utf8 ''Jefe'' @ replicate (64 - length (utf8 ''Jefe'')) 0) =
     [0x7C, 0x53, 0x50, 0x53, 0x36, 0x36, 0x36, 0x36, 0x36, 0x36, 0x36, 0x36, 0x36, 0x36, 0x36, 0x36,
      0x36, 0x36, 0x36, 0x36, 0x36, 0x36, 0x36, 0x36, 0x36, 0x36, 0x36, 0x36, 0x36, 0x36, 0x36, 0x36,
      0x36, 0x36, 0x36, 0x36, 0x36, 0x36, 0x36, 0x36, 0x36, 0x36, 0x36, 0x36, 0x36, 0x36, 0x36, 0x36,
      0x36, 0x36, 0x36, 0x36, 0x36, 0x36, 0x36, 0x36, 0x36, 0x36, 0x36, 0x36, 0x36, 0x36, 0x36, 0x36]"
  unfolding rfc2202_key_length by (simp add: utf8_def replicate_eval)

lemma rfc2202_opad:
  "map (\<lambda>b. b XOR 0x5C) (utf8 ''Jefe'' @ replicate (64 - length (utf8 ''Jefe'')) 0) =
     [0x16, 0x39, 0x3A, 0x39, 0x5C, 0x5C, 0x5C, 0x5C, 0x5C, 0x5C, 0x5C, 0x5C, 0x5C, 0x5C, 0x5C, 0x5C,
      0x5C, 0x5C, 0x5C, 0x5C, 0x5C, 0x5C, 0x5C, 0x5C, 0x5C, 0x5C, 0x5C, 0x5C, 0x5C, 0x5C, 0x5C, 0x5C,
      0x5C, 0x5C, 0x5C, 0x5C, 0x5C, 0x5C, 0x5C, 0x5C, 0x5C, 0x5C, 0x5C, 0x5C, 0x5C, 0x5C, 0x5C, 0x5C,
      0x5C, 0x5C, 0x5C, 0x5C, 0x5C, 0x5C, 0x5C, 0x5C, 0x5C, 0x5C, 0x5C, 0x5C, 0x5C, 0x5C, 0x5C, 0x5C]"
  unfolding rfc2202_key_length by (simp add: utf8_def replicate_eval)

lemma rfc2202_inner_length:
  "length ([0x7C, 0x53, 0x50, 0x53, 0x36, 0x36, 0x36, 0x36, 0x36, 0x36, 0x36, 0x36, 0x36, 0x36, 0x36, 0x36,
      0x36, 0x36, 0x36, 0x36, 0x36, 0x36, 0x36, 0x36, 0x36, 0x36, 0x36, 0x36, 0x36, 0x36, 0x36, 0x36,
      0x36, 0x36, 0x36, 0x36, 0x36, 0x36, 0x36, 0x36, 0x36, 0x36, 0x36, 0x36, 0x36, 0x36, 0x36, 0x36,
      0x36, 0x36, 0x36, 0x36, 0x36, 0x36, 0x36, 0x36, 0x36, 0x36, 0x36, 0x36, 0x36, 0x36, 0x36, 0x36] @ utf8 ''what do ya want for nothing?'') = 92"
  by (simp add: utf8_def)

lemma rfc2202_inner_pad:
  "sha1_pad ([0x7C, 0x53, 0x50, 0x53, 0x36, 0x36, 0x36, 0x36, 0x36, 0x36, 0x36, 0x36, 0x36, 0x36, 0x36, 0x36,
      0x36, 0x36, 0x36, 0x36, 0x36, 0x36, 0x36, 0x36, 0x36, 0x36, 0x36, 0x36, 0x36, 0x36, 0x36, 0x36,
      0x36, 0x36, 0x36, 0x36, 0x36, 0x36, 0x36, 0x36, 0x36, 0x36, 0x36, 0x36, 0x36, 0x36, 0x36, 0x36,
      0x36, 0x36, 0x36, 0x36, 0x36, 0x36, 0x36, 0x36, 0x36, 0x36, 0x36, 0x36, 0x36, 0x36, 0x36, 0x36] @ utf8 ''what do ya want for nothing?'') =
     [0x7C, 0x53, 0x50, 0x53, 0x36, 0x36, 0x36, 0x36, 0x36, 0x36, 0x36, 0x36, 0x36, 0x36, 0x36, 0x36,
      0x36, 0x36, 0x36, 0x36, 0x36, 0x36, 0x36, 0x36, 0x36, 0x36, 0x36, 0x36, 0x36, 0x36, 0x36, 0x36,
      0x36, 0x36, 0x36, 0x36, 0x36, 0x36, 0x36, 0x36, 0x36, 0x36, 0x36, 0x36, 0x36, 0x36, 0x36, 0x36,
      0x36, 0x36, 0x36, 0x36, 0x36, 0x36, 0x36, 0x36, 0x36, 0x36, 0x36, 0x36, 0x36, 0x36, 0x36, 0x36,
      0x77, 0x68, 0x61, 0x74, 0x20, 0x64, 0x6F, 0x20, 0x79, 0x61, 0x20, 0x77, 0x61, 0x6E, 0x74, 0x20,
      0x66, 0x6F, 0x72, 0x20, 0x6E, 0x6F, 0x74, 0x68, 0x69, 0x6E, 0x67, 0x3F, 0x80, 0x00, 0x00, 0x00,
      0x00, 0x00, 0x00, 0x00, 0x00, 0x00, 0x00, 0x00, 0x00, 0x00, 0x00, 0x00, 0x00, 0x00, 0x00, 0x00,
      0x00, 0x00, 0x00, 0x00, 0x00, 0x00, 0x00, 0x00, 0x00, 0x00, 0x00, 0x00, 0x00, 0x00, 0x02, 0xE0]"
  unfolding sha1_pad_def rfc2202_inner_length
  by (simp add: utf8_def bytes_of_length_def replicate_eval)

lemma rfc2202_block1:
  "sha1_block
     [0x7C, 0x53, 0x50, 0x53, 0x36, 0x36, 0x36, 0x36, 0x36, 0x36, 0x36, 0x36, 0x36, 0x36, 0x36, 0x36,
      0x36, 0x36, 0x36, 0x36, 0x36, 0x36, 0x36, 0x36, 0x36, 0x36, 0x36, 0x36, 0x36, 0x36, 0x36, 0x36,
      0x36, 0x36, 0x36, 0x36, 0x36, 0x36, 0x36, 0x36, 0x36, 0x36, 0x36, 0x36, 0x36, 0x36, 0x36, 0x36,
      0x36, 0x36, 0x36, 0x36, 0x36, 0x36, 0x36, 0x36, 0x36, 0x36, 0x36, 0x36, 0x36, 0x36, 0x36, 0x36]
     (0x67452301, 0xEFCDAB89, 0x98BADCFE, 0x10325476, 0xC3D2E1F0) =
   (0x624D8EA7, 0x3F2B1803, 0x9554B9E4, 0x28C065F5, 0xA9FCB98E)"
  by (simp add: sha1_eval del: sha1_rounds.simps(2))

lemma rfc2202_block2:
  "sha1_block
     [0x77, 0x68, 0x61, 0x74, 0x20, 0x64, 0x6F, 0x20, 0x79, 0x61, 0x20, 0x77, 0x61, 0x6E, 0x74, 0x20,
      0x66, 0x6F, 0x72, 0x20, 0x6E, 0x6F, 0x74, 0x68, 0x69, 0x6E, 0x67, 0x3F, 0x80, 0x00, 0x00, 0x00,
      0x00, 0x00, 0x00, 0x00, 0x00, 0x00, 0x00, 0x00, 0x00, 0x00, 0x00, 0x00, 0x00, 0x00, 0x00, 0x00,
      0x00, 0x00, 0x00, 0x00, 0x00, 0x00, 0x00, 0x00, 0x00, 0x00, 0x00, 0x00, 0x00, 0x00, 0x02, 0xE0]
     (0x624D8EA7, 0x3F2B1803, 0x9554B9E4, 0x28C065F5, 0xA9FCB98E) =
   (0x98851244, 0x3AF91C57, 0xA38CE2DC, 0x8EC38796, 0x6C08DEC4)"
  by (simp add: sha1_eval del: sha1_rounds.simps(2))

lemma rfc2202_inner:
  "sha1 ([0x7C, 0x53, 0x50, 0x53, 0x36, 0x36, 0x36, 0x36, 0x36, 0x36, 0x36, 0x36, 0x36, 0x36, 0x36, 0x36,
      0x36, 0x36, 0x36, 0x36, 0x36, 0x36, 0x36, 0x36, 0x36, 0x36, 0x36, 0x36, 0x36, 0x36, 0x36, 0x36,
      0x36, 0x36, 0x36, 0x36, 0x36, 0x36, 0x36, 0x36, 0x36, 0x36, 0x36, 0x36, 0x36, 0x36, 0x36, 0x36,
      0x36, 0x36, 0x36, 0x36, 0x36, 0x36, 0x36, 0x36, 0x36, 0x36, 0x36, 0x36, 0x36, 0x36, 0x36, 0x36] @ utf8 ''what do ya want for nothing?'') =
     [0x98, 0x85, 0x12, 0x44, 0x3A, 0xF9, 0x1C, 0x57, 0xA3, 0x8C, 0xE2, 0xDC, 0x8E, 0xC3, 0x87, 0x96,
      0x6C, 0x08, 0xDE, 0xC4]"
  unfolding sha1_def rfc2202_inner_pad
  by (simp add: rfc2202_block1 rfc2202_block2 bytes_of_word_def)

lemma rfc2202_outer_length:
  "length ([0x16, 0x39, 0x3A, 0x39, 0x5C, 0x5C, 0x5C, 0x5C, 0x5C, 0x5C, 0x5C, 0x5C, 0x5C, 0x5C, 0x5C, 0x5C,
      0x5C, 0x5C, 0x5C, 0x5C, 0x5C, 0x5C, 0x5C, 0x5C, 0x5C, 0x5C, 0x5C, 0x5C, 0x5C, 0x5C, 0x5C, 0x5C,
      0x5C, 0x5C, 0x5C, 0x5C, 0x5C, 0x5C, 0x5C, 0x5C, 0x5C, 0x5C, 0x5C, 0x5C, 0x5C, 0x5C, 0x5C, 0x5C,
      0x5C, 0x5C, 0x5C, 0x5C, 0x5C, 0x5C, 0x5C, 0x5C, 0x5C, 0x5C, 0x5C, 0x5C, 0x5C, 0x5C, 0x5C, 0x5C] @
     [0x98, 0x85, 0x12, 0x44, 0x3A, 0xF9, 0x1C, 0x57, 0xA3, 0x8C, 0xE2, 0xDC, 0x8E, 0xC3, 0x87, 0x96,
      0x6C, 0x08, 0xDE, 0xC4]) = 84"
  by simp

lemma rfc2202_outer_pad:
  "sha1_pad ([0x16, 0x39, 0x3A, 0x39, 0x5C, 0x5C, 0x5C, 0x5C, 0x5C, 0x5C, 0x5C, 0x5C, 0x5C, 0x5C, 0x5C, 0x5C,
      0x5C, 0x5C, 0x5C, 0x5C, 0x5C, 0x5C, 0x5C, 0x5C, 0x5C, 0x5C, 0x5C, 0x5C, 0x5C, 0x5C, 0x5C, 0x5C,
      0x5C, 0x5C, 0x5C, 0x5C, 0x5C, 0x5C, 0x5C, 0x5C, 0x5C, 0x5C, 0x5C, 0x5C, 0x5C, 0x5C, 0x5C, 0x5C,
      0x5C, 0x5C, 0x5C, 0x5C, 0x5C, 0x5C, 0x5C, 0x5C, 0x5C, 0x5C, 0x5C, 0x5C, 0x5C, 0x5C, 0x5C, 0x5C] @
     [0x98, 0x85, 0x12, 0x44, 0x3A, 0xF9, 0x1C, 0x57, 0xA3, 0x8C, 0xE2, 0xDC, 0x8E, 0xC3, 0x87, 0x96,
      0x6C, 0x08, 0xDE, 0xC4]) =
     [0x16, 0x39, 0x3A, 0x39, 0x5C, 0x5C, 0x5C, 0x5C, 0x5C, 0x5C, 0x5C, 0x5C, 0x5C, 0x5C, 0x5C, 0x5C,
      0x5C, 0x5C, 0x5C, 0x5C, 0x5C, 0x5C, 0x5C, 0x5C, 0x5C, 0x5C, 0x5C, 0x5C, 0x5C, 0x5C, 0x5C, 0x5C,
      0x5C, 0x5C, 0x5C, 0x5C, 0x5C, 0x5C, 0x5C, 0x5C, 0x5C, 0x5C, 0x5C, 0x5C, 0x5C, 0x5C, 0x5C, 0x5C,
      0x5C, 0x5C, 0x5C, 0x5C, 0x5C, 0x5C, 0x5C, 0x5C, 0x5C, 0x5C, 0x5C, 0x5C, 0x5C, 0x5C, 0x5C, 0x5C,
      0x98, 0x85, 0x12, 0x44, 0x3A, 0xF9, 0x1C, 0x57, 0xA3, 0x8C, 0xE2, 0xDC, 0x8E, 0xC3, 0x87, 0x96,
      0x6C, 0x08, 0xDE, 0xC4, 0x80, 0x00, 0x00, 0x00, 0x00, 0x00, 0x00, 0x00, 0x00, 0x00, 0x00, 0x00,
      0x00, 0x00, 0x00, 0x00, 0x00, 0x00, 0x00, 0x00, 0x00, 0x00, 0x00, 0x00, 0x00, 0x00, 0x00, 0x00,
      0x00, 0x00, 0x00, 0x00, 0x00, 0x00, 0x00, 0x00, 0x00, 0x00, 0x00, 0x00, 0x00, 0x00, 0x02, 0xA0]"
  unfolding sha1_pad_def rfc2202_outer_length
  by (simp add: bytes_of_length_def replicate_eval)

lemma rfc2202_block3:
  "sha1_block
     [0x16, 0x39, 0x3A, 0x39, 0x5C, 0x5C, 0x5C, 0x5C, 0x5C, 0x5C, 0x5C, 0x5C, 0x5C, 0x5C, 0x5C, 0x5C,
      0x5C, 0x5C, 0x5C, 0x5C, 0x5C, 0x5C, 0x5C, 0x5C, 0x5C, 0x5C, 0x5C, 0x5C, 0x5C, 0x5C, 0x5C, 0x5C,
      0x5C, 0x5C, 0x5C, 0x5C, 0x5C, 0x5C, 0x5C, 0x5C, 0x5C, 0x5C, 0x5C, 0x5C, 0x5C, 0x5C, 0x5C, 0x5C,
      0x5C, 0x5C, 0x5C, 0x5C, 0x5C, 0x5C, 0x5C, 0x5C, 0x5C, 0x5C, 0x5C, 0x5C, 0x5C, 0x5C, 0x5C, 0x5C]
     (0x67452301, 0xEFCDAB89, 0x98BADCFE, 0x10325476, 0xC3D2E1F0) =
   (0x2088372A, 0xF50610A1, 0xF82F8B05, 0x8E4BFE32, 0x280B4E35)"
  by (simp add: sha1_eval del: sha1_rounds.simps(2))

lemma rfc2202_block4:
  "sha1_block
     [0x98, 0x85, 0x12, 0x44, 0x3A, 0xF9, 0x1C, 0x57, 0xA3, 0x8C, 0xE2, 0xDC, 0x8E, 0xC3, 0x87, 0x96,
      0x6C, 0x08, 0xDE, 0xC4, 0x80, 0x00, 0x00, 0x00, 0x00, 0x00, 0x00, 0x00, 0x00, 0x00, 0x00, 0x00,
      0x00, 0x00, 0x00, 0x00, 0x00, 0x00, 0x00, 0x00, 0x00, 0x00, 0x00, 0x00, 0x00, 0x00, 0x00, 0x00,
      0x00, 0x00, 0x00, 0x00, 0x00, 0x00, 0x00, 0x00, 0x00, 0x00, 0x00, 0x00, 0x00, 0x00, 0x02, 0xA0]
     (0x2088372A, 0xF50610A1, 0xF82F8B05, 0x8E4BFE32, 0x280B4E35) =
   (0xEFFCDF6A, 0xE5EB2FA2, 0xD27416D5, 0xF184DF9C, 0x259A7C79)"
  by (simp add: sha1_eval del: sha1_rounds.simps(2))

lemma rfc2202_outer:
  "sha1 ([0x16, 0x39, 0x3A, 0x39, 0x5C, 0x5C, 0x5C, 0x5C, 0x5C, 0x5C, 0x5C, 0x5C, 0x5C, 0x5C, 0x5C, 0x5C,
      0x5C, 0x5C, 0x5C, 0x5C, 0x5C, 0x5C, 0x5C, 0x5C, 0x5C, 0x5C, 0x5C, 0x5C, 0x5C, 0x5C, 0x5C, 0x5C,
      0x5C, 0x5C, 0x5C, 0x5C, 0x5C, 0x5C, 0x5C, 0x5C, 0x5C, 0x5C, 0x5C, 0x5C, 0x5C, 0x5C, 0x5C, 0x5C,
      0x5C, 0x5C, 0x5C, 0x5C, 0x5C, 0x5C, 0x5C, 0x5C, 0x5C, 0x5C, 0x5C, 0x5C, 0x5C, 0x5C, 0x5C, 0x5C] @
     [0x98, 0x85, 0x12, 0x44, 0x3A, 0xF9, 0x1C, 0x57, 0xA3, 0x8C, 0xE2, 0xDC, 0x8E, 0xC3, 0x87, 0x96,
      0x6C, 0x08, 0xDE, 0xC4]) =
     [0xEF, 0xFC, 0xDF, 0x6A, 0xE5, 0xEB, 0x2F, 0xA2, 0xD2, 0x74, 0x16, 0xD5, 0xF1, 0x84, 0xDF, 0x9C,
      0x25, 0x9A, 0x7C, 0x79]"
  unfolding sha1_def rfc2202_outer_pad
  by (simp add: rfc2202_block3 rfc2202_block4 bytes_of_word_def)

lemma rfc2202_hmac:
  "hex (hmac_sha1 (utf8 ''Jefe'') (utf8 ''what do ya want for nothing?'')) = ''effcdf6ae5eb2fa2d27416d5f184df9c259a7c79''"
  unfolding hmac_sha1_def Let_def rfc2202_key rfc2202_ipad rfc2202_opad rfc2202_inner rfc2202_outer
  by (simp add: hex_def hex_digit_def)

text \<open>
  The token of the plate \<^verbatim>\<open>ABC1234\<close> under the documented defaults.
\<close>

lemma token_key_length: "length (utf8 ''ABC1234#8.1.0#g8LzUadkEHs7mbRqbX5l'') = 34"
  by (simp add: utf8_def)

lemma token_key: "(if 64 < length (utf8 ''ABC1234#8.1.0#g8LzUadkEHs7mbRqbX5l'') then sha1 (utf8 ''ABC1234#8.1.0#g8LzUadkEHs7mbRqbX5l'') else utf8 ''ABC1234#8.1.0#g8LzUadkEHs7mbRqbX5l'') = utf8 ''ABC1234#8.1.0#g8LzUadkEHs7mbRqbX5l''"
  unfolding token_key_length by simp

lemma token_ipad:
  "map (\<lambda>b. b XOR 0x36) (utf8 ''ABC1234#8.1.0#g8LzUadkEHs7mbRqbX5l'' @ replicate (64 - length (utf8 ''ABC1234#8.1.0#g8LzUadkEHs7mbRqbX5l'')) 0) =
     [0x77, 0x74, 0x75, 0x07, 0x04, 0x05, 0x02, 0x15, 0x0E, 0x18, 0x07, 0x18, 0x06, 0x15, 0x51, 0x0E,
      0x7A, 0x4C, 0x63, 0x57, 0x52, 0x5D, 0x73, 0x7E, 0x45, 0x01, 0x5B, 0x54, 0x64, 0x47, 0x54, 0x6E,
      0x03, 0x5A, 0x36, 0x36, 0x36, 0x36, 0x36, 0x36, 0x36, 0x36, 0x36, 0x36, 0x36, 0x36, 0x36, 0x36,
      0x36, 0x36, 0x36, 0x36, 0x36, 0x36, 0x36, 0x36, 0x36, 0x36, 0x36, 0x36, 0x36, 0x36, 0x36, 0x36]"
  unfolding token_key_length by (simp add: utf8_def replicate_eval)

lemma token_opad:
  "map (\<lambda>b. b XOR 0x5C) (utf8 ''ABC1234#8.1.0#g8LzUadkEHs7mbRqbX5l'' @ replicate (64 - length (utf8 ''ABC1234#8.1.0#g8LzUadkEHs7mbRqbX5l'')) 0) =
     [0x1D, 0x1E, 0x1F, 0x6D, 0x6E, 0x6F, 0x68, 0x7F, 0x64, 0x72, 0x6D, 0x72, 0x6C, 0x7F, 0x3B, 0x64,
      0x10, 0x26, 0x09, 0x3D, 0x38, 0x37, 0x19, 0x14, 0x2F, 0x6B, 0x31, 0x3E, 0x0E, 0x2D, 0x3E, 0x04,
      0x69, 0x30, 0x5C, 0x5C, 0x5C, 0x5C, 0x5C, 0x5C, 0x5C, 0x5C, 0x5C, 0x5C, 0x5C, 0x5C, 0x5C, 0x5C,
      0x5C, 0x5C, 0x5C, 0x5C, 0x5C, 0x5C, 0x5C, 0x5C, 0x5C, 0x5C, 0x5C, 0x5C, 0x5C, 0x5C, 0x5C, 0x5C]"
  unfolding token_key_length by (simp add: utf8_def replicate_eval)

lemma token_inner_length:
  "length ([0x77, 0x74, 0x75, 0x07, 0x04, 0x05, 0x02, 0x15, 0x0E, 0x18, 0x07, 0x18, 0x06, 0x15, 0x51, 0x0E,
      0x7A, 0x4C, 0x63, 0x57, 0x52, 0x5D, 0x73, 0x7E, 0x45, 0x01, 0x5B, 0x54, 0x64, 0x47, 0x54, 0x6E,
      0x03, 0x5A, 0x36, 0x36, 0x36, 0x36, 0x36, 0x36, 0x36, 0x36, 0x36, 0x36, 0x36, 0x36, 0x36, 0x36,
      0x36, 0x36, 0x36, 0x36, 0x36, 0x36, 0x36, 0x36, 0x36, 0x36, 0x36, 0x36, 0x36, 0x36, 0x36, 0x36] @ utf8 ''ABC1234'') = 71"
  by (simp add: utf8_def)

lemma token_inner_pad:
  "sha1_pad ([0x77, 0x74, 0x75, 0x07, 0x04, 0x05, 0x02, 0x15, 0x0E, 0x18, 0x07, 0x18, 0x06, 0x15, 0x51, 0x0E,
      0x7A, 0x4C, 0x63, 0x57, 0x52, 0x5D, 0x73, 0x7E, 0x45, 0x01, 0x5B, 0x54, 0x64, 0x47, 0x54, 0x6E,
      0x03, 0x5A, 0x36, 0x36, 0x36, 0x36, 0x36, 0x36, 0x36, 0x36, 0x36, 0x36, 0x36, 0x36, 0x36, 0x36,
      0x36, 0x36, 0x36, 0x36, 0x36, 0x36, 0x36, 0x36, 0x36, 0x36, 0x36, 0x36, 0x36, 0x36, 0x36, 0x36] @ utf8 ''ABC1234'') =
     [0x77, 0x74, 0x75, 0x07, 0x04, 0x05, 0x02, 0x15, 0x0E, 0x18, 0x07, 0x18, 0x06, 0x15, 0x51, 0x0E,
      0x7A, 0x4C, 0x63, 0x57, 0x52, 0x5D, 0x73, 0x7E, 0x45, 0x01, 0x5B, 0x54, 0x64, 0x47, 0x54, 0x6E,
      0x03, 0x5A, 0x36, 0x36, 0x36, 0x36, 0x36, 0x36, 0x36, 0x36, 0x36, 0x36, 0x36, 0x36, 0x36, 0x36,
      0x36, 0x36, 0x36, 0x36, 0x36, 0x36, 0x36, 0x36, 0x36, 0x36, 0x36, 0x36, 0x36, 0x36, 0x36, 0x36,
      0x41, 0x42, 0x43, 0x31, 0x32, 0x33, 0x34, 0x80, 0x00, 0x00, 0x00, 0x00, 0x00, 0x00, 0x00, 0x00,
      0x00, 0x00, 0x00, 0x00, 0x00, 0x00, 0x00, 0x00, 0x00, 0x00, 0x00, 0x00, 0x00, 0x00, 0x00, 0x00,
      0x00, 0x00, 0x00, 0x00, 0x00, 0x00, 0x00, 0x00, 0x00, 0x00, 0x00, 0x00, 0x00, 0x00, 0x00, 0x00,
      0x00, 0x00, 0x00, 0x00, 0x00, 0x00, 0x00, 0x00, 0x00, 0x00, 0x00, 0x00, 0x00, 0x00, 0x02, 0x38]"
  unfolding sha1_pad_def token_inner_length
  by (simp add: utf8_def bytes_of_length_def replicate_eval)

lemma token_block1:
  "sha1_block
     [0x77, 0x74, 0x75, 0x07, 0x04, 0x05, 0x02, 0x15, 0x0E, 0x18, 0x07, 0x18, 0x06, 0x15, 0x51, 0x0E,
      0x7A, 0x4C, 0x63, 0x57, 0x52, 0x5D, 0x73, 0x7E, 0x45, 0x01, 0x5B, 0x54, 0x64, 0x47, 0x54, 0x6E,
      0x03, 0x5A, 0x36, 0x36, 0x36, 0x36, 0x36, 0x36, 0x36, 0x36, 0x36, 0x36, 0x36, 0x36, 0x36, 0x36,
      0x36, 0x36, 0x36, 0x36, 0x36, 0x36, 0x36, 0x36, 0x36, 0x36, 0x36, 0x36, 0x36, 0x36, 0x36, 0x36]
     (0x67452301, 0xEFCDAB89, 0x98BADCFE, 0x10325476, 0xC3D2E1F0) =
   (0xA19D6E02, 0x7B8853E9, 0xCB64B737, 0x063A725D, 0x4E72C2BF)"
  by (simp add: sha1_eval del: sha1_rounds.simps(2))

lemma token_block2:
  "sha1_block
     [0x41, 0x42, 0x43, 0x31, 0x32, 0x33, 0x34, 0x80, 0x00, 0x00, 0x00, 0x00, 0x00, 0x00, 0x00, 0x00,
      0x00, 0x00, 0x00, 0x00, 0x00, 0x00, 0x00, 0x00, 0x00, 0x00, 0x00, 0x00, 0x00, 0x00, 0x00, 0x00,
      0x00, 0x00, 0x00, 0x00, 0x00, 0x00, 0x00, 0x00, 0x00, 0x00, 0x00, 0x00, 0x00, 0x00, 0x00, 0x00,
      0x00, 0x00, 0x00, 0x00, 0x00, 0x00, 0x00, 0x00, 0x00, 0x00, 0x00, 0x00, 0x00, 0x00, 0x02, 0x38]
     (0xA19D6E02, 0x7B8853E9, 0xCB64B737, 0x063A725D, 0x4E72C2BF) =
   (0x405B8C23, 0x9D3B9D21, 0x544A995F, 0xFDE2B84B, 0xFA421E56)"
  by (simp add: sha1_eval del: sha1_rounds.simps(2))

lemma token_inner:
  "sha1 ([0x77, 0x74, 0x75, 0x07, 0x04, 0x05, 0x02, 0x15, 0x0E, 0x18, 0x07, 0x18, 0x06, 0x15, 0x51, 0x0E,
      0x7A, 0x4C, 0x63, 0x57, 0x52, 0x5D, 0x73, 0x7E, 0x45, 0x01, 0x5B, 0x54, 0x64, 0x47, 0x54, 0x6E,
      0x03, 0x5A, 0x36, 0x36, 0x36, 0x36, 0x36, 0x36, 0x36, 0x36, 0x36, 0x36, 0x36, 0x36, 0x36, 0x36,
      0x36, 0x36, 0x36, 0x36, 0x36, 0x36, 0x36, 0x36, 0x36, 0x36, 0x36, 0x36, 0x36, 0x36, 0x36, 0x36] @ utf8 ''ABC1234'') =
     [0x40, 0x5B, 0x8C, 0x23, 0x9D, 0x3B, 0x9D, 0x21, 0x54, 0x4A, 0x99, 0x5F, 0xFD, 0xE2, 0xB8, 0x4B,
      0xFA, 0x42, 0x1E, 0x56]"
  unfolding sha1_def token_inner_pad
  by (simp add: token_block1 token_block2 bytes_of_word_def)

lemma token_outer_length:
  "length ([0x1D, 0x1E, 0x1F, 0x6D, 0x6E, 0x6F, 0x68, 0x7F, 0x64, 0x72, 0x6D, 0x72, 0x6C, 0x7F, 0x3B, 0x64,
      0x10, 0x26, 0x09, 0x3D, 0x38, 0x37, 0x19, 0x14, 0x2F, 0x6B, 0x31, 0x3E, 0x0E, 0x2D, 0x3E, 0x04,
      0x69, 0x30, 0x5C, 0x5C, 0x5C, 0x5C, 0x5C, 0x5C, 0x5C, 0x5C, 0x5C, 0x5C, 0x5C, 0x5C, 0x5C, 0x5C,
      0x5C, 0x5C, 0x5C, 0x5C, 0x5C, 0x5C, 0x5C, 0x5C, 0x5C, 0x5C, 0x5C, 0x5C, 0x5C, 0x5C, 0x5C, 0x5C] @
     [0x40, 0x5B, 0x8C, 0x23, 0x9D, 0x3B, 0x9D, 0x21, 0x54, 0x4A, 0x99, 0x5F, 0xFD, 0xE2, 0xB8, 0x4B,
      0xFA, 0x42, 0x1E, 0x56]) = 84"
  by simp

lemma token_outer_pad:
  "sha1_pad ([0x1D, 0x1E, 0x1F, 0x6D, 0x6E, 0x6F, 0x68, 0x7F, 0x64, 0x72, 0x6D, 0x72, 0x6C, 0x7F, 0x3B, 0x64,
      0x10, 0x26, 0x09, 0x3D, 0x38, 0x37, 0x19, 0x14, 0x2F, 0x6B, 0x31, 0x3E, 0x0E, 0x2D, 0x3E, 0x04,
      0x69, 0x30, 0x5C, 0x5C, 0x5C, 0x5C, 0x5C, 0x5C, 0x5C, 0x5C, 0x5C, 0x5C, 0x5C, 0x5C, 0x5C, 0x5C,
      0x5C, 0x5C, 0x5C, 0x5C, 0x5C, 0x5C, 0x5C, 0x5C, 0x5C, 0x5C, 0x5C, 0x5C, 0x5C, 0x5C, 0x5C, 0x5C] @
     [0x40, 0x5B, 0x8C, 0x23, 0x9D, 0x3B, 0x9D, 0x21, 0x54, 0x4A, 0x99, 0x5F, 0xFD, 0xE2, 0xB8, 0x4B,
      0xFA, 0x42, 0x1E, 0x56]) =
     [0x1D, 0x1E, 0x1F, 0x6D, 0x6E, 0x6F, 0x68, 0x7F, 0x64, 0x72, 0x6D, 0x72, 0x6C, 0x7F, 0x3B, 0x64,
      0x10, 0x26, 0x09, 0x3D, 0x38, 0x37, 0x19, 0x14, 0x2F, 0x6B, 0x31, 0x3E, 0x0E, 0x2D, 0x3E, 0x04,
      0x69, 0x30, 0x5C, 0x5C, 0x5C, 0x5C, 0x5C, 0x5C, 0x5C, 0x5C, 0x5C, 0x5C, 0x5C, 0x5C, 0x5C, 0x5C,
      0x5C, 0x5C, 0x5C, 0x5C, 0x5C, 0x5C, 0x5C, 0x5C, 0x5C, 0x5C, 0x5C, 0x5C, 0x5C, 0x5C, 0x5C, 0x5C,
      0x40, 0x5B, 0x8C, 0x23, 0x9D, 0x3B, 0x9D, 0x21, 0x54, 0x4A, 0x99, 0x5F, 0xFD, 0xE2, 0xB8, 0x4B,
      0xFA, 0x42, 0x1E, 0x56, 0x80, 0x00, 0x00, 0x00, 0x00, 0x00, 0x00, 0x00, 0x00, 0x00, 0x00, 0x00,
      0x00, 0x00, 0x00, 0x00, 0x00, 0x00, 0x00, 0x00, 0x00, 0x00, 0x00, 0x00, 0x00, 0x00, 0x00, 0x00,
      0x00, 0x00, 0x00, 0x00, 0x00, 0x00, 0x00, 0x00, 0x00, 0x00, 0x00, 0x00, 0x00, 0x00, 0x02, 0xA0]"
  unfolding sha1_pad_def token_outer_length
  by (simp add: bytes_of_length_def replicate_eval)

lemma token_block3:
  "sha1_block
     [0x1D, 0x1E, 0x1F, 0x6D, 0x6E, 0x6F, 0x68, 0x7F, 0x64, 0x72, 0x6D, 0x72, 0x6C, 0x7F, 0x3B, 0x64,
      0x10, 0x26, 0x09, 0x3D, 0x38, 0x37, 0x19, 0x14, 0x2F, 0x6B, 0x31, 0x3E, 0x0E, 0x2D, 0x3E, 0x04,
      0x69, 0x30, 0x5C, 0x5C, 0x5C, 0x5C, 0x5C, 0x5C, 0x5C, 0x5C, 0x5C, 0x5C, 0x5C, 0x5C, 0x5C, 0x5C,
      0x5C, 0x5C, 0x5C, 0x5C, 0x5C, 0x5C, 0x5C, 0x5C, 0x5C, 0x5C, 0x5C, 0x5C, 0x5C, 0x5C, 0x5C, 0x5C]
     (0x67452301, 0xEFCDAB89, 0x98BADCFE, 0x10325476, 0xC3D2E1F0) =
   (0x5DCE943E, 0x3973DFBC, 0x6C661A30, 0x97A3BFA6, 0xAA344A1C)"
  by (simp add: sha1_eval del: sha1_rounds.simps(2))

lemma token_block4:
  "sha1_block
     [0x40, 0x5B, 0x8C, 0x23, 0x9D, 0x3B, 0x9D, 0x21, 0x54, 0x4A, 0x99, 0x5F, 0xFD, 0xE2, 0xB8, 0x4B,
      0xFA, 0x42, 0x1E, 0x56, 0x80, 0x00, 0x00, 0x00, 0x00, 0x00, 0x00, 0x00, 0x00, 0x00, 0x00, 0x00,
      0x00, 0x00, 0x00, 0x00, 0x00, 0x00, 0x00, 0x00, 0x00, 0x00, 0x00, 0x00, 0x00, 0x00, 0x00, 0x00,
      0x00, 0x00, 0x00, 0x00, 0x00, 0x00, 0x00, 0x00, 0x00, 0x00, 0x00, 0x00, 0x00, 0x00, 0x02, 0xA0]
     (0x5DCE943E, 0x3973DFBC, 0x6C661A30, 0x97A3BFA6, 0xAA344A1C) =
   (0xE9D305DB, 0xCB11278E, 0x85B4AED3, 0xA9F6066C, 0x0FAA6E2F)"
  by (simp add: sha1_eval del: sha1_rounds.simps(2))

lemma token_outer:
  "sha1 ([0x1D, 0x1E, 0x1F, 0x6D, 0x6E, 0x6F, 0x68, 0x7F, 0x64, 0x72, 0x6D, 0x72, 0x6C, 0x7F, 0x3B, 0x64,
      0x10, 0x26, 0x09, 0x3D, 0x38, 0x37, 0x19, 0x14, 0x2F, 0x6B, 0x31, 0x3E, 0x0E, 0x2D, 0x3E, 0x04,
      0x69, 0x30, 0x5C, 0x5C, 0x5C, 0x5C, 0x5C, 0x5C, 0x5C, 0x5C, 0x5C, 0x5C, 0x5C, 0x5C, 0x5C, 0x5C,
      0x5C, 0x5C, 0x5C, 0x5C, 0x5C, 0x5C, 0x5C, 0x5C, 0x5C, 0x5C, 0x5C, 0x5C, 0x5C, 0x5C, 0x5C, 0x5C] @
     [0x40, 0x5B, 0x8C, 0x23, 0x9D, 0x3B, 0x9D, 0x21, 0x54, 0x4A, 0x99, 0x5F, 0xFD, 0xE2, 0xB8, 0x4B,
      0xFA, 0x42, 0x1E, 0x56]) =
     [0xE9, 0xD3, 0x05, 0xDB, 0xCB, 0x11, 0x27, 0x8E, 0x85, 0xB4, 0xAE, 0xD3, 0xA9, 0xF6, 0x06, 0x6C,
      0x0F, 0xAA, 0x6E, 0x2F]"
  unfolding sha1_def token_outer_pad
  by (simp add: token_block3 token_block4 bytes_of_word_def)

lemma token_hmac:
  "hex (hmac_sha1 (utf8 ''ABC1234#8.1.0#g8LzUadkEHs7mbRqbX5l'') (utf8 ''ABC1234'')) = ''e9d305dbcb11278e85b4aed3a9f6066c0faa6e2f''"
  unfolding hmac_sha1_def Let_def token_key token_ipad token_opad token_inner token_outer
  by (simp add: hex_def hex_digit_def)

lemma generateToken_example:
  "generateToken DEFAULT ''ABC1234'' = ''e9d305dbcb11278e85b4aed3a9f6066c0faa6e2f''"
proof -
  have k: "''ABC1234'' @ ''#'' @ androidVersion DEFAULT @ ''#'' @ secret DEFAULT =
           ''ABC1234#8.1.0#g8LzUadkEHs7mbRqbX5l''"
    by (simp add: DEFAULT_def)
  show ?thesis
    unfolding generateToken_def createHmac_sha1_hex_def Let_def k by (rule token_hmac)
qed

lemma utf8_two_bytes: "utf8 [CHR 0xE1] = [0xC3, 0xA1]"
  by (simp add: utf8_def)

text \<open>
  Claim C5: the token is the lowercase hexadecimal HMAC-SHA1 digest whose key is
  the plate, \<^verbatim>\<open>#\<close>, the Android version, \<^verbatim>\<open>#\<close> and the secret, and whose
  message is the plate. It is therefore a function of these three strings
  alone: no other field of the configuration enters it. The digest has 40
  digits, each one of \<^verbatim>\<open>0123456789abcdef\<close>. That the digest is the one of
  HMAC-SHA1 is fixed by the second test case of RFC 2202, by the token of the
  plate \<^verbatim>\<open>ABC1234\<close> under the documented defaults, and by the two UTF-8 bytes of
  a code unit above 127.
\<close>

theorem generateToken_hmac_sha1:
  "generateToken opts plate = spec_generateToken plate (androidVersion opts) (secret opts) \<and>
   length (generateToken opts plate) = 40 \<and>
   list_all is_lower_hex (generateToken opts plate) \<and>
   hex (hmac_sha1 (utf8 ''Jefe'') (utf8 ''what do ya want for nothing?'')) =
     ''effcdf6ae5eb2fa2d27416d5f184df9c259a7c79'' \<and>
   spec_generateToken ''ABC1234'' ''8.1.0'' ''g8LzUadkEHs7mbRqbX5l'' =
     ''e9d305dbcb11278e85b4aed3a9f6066c0faa6e2f'' \<and>
   generateToken DEFAULT ''ABC1234'' = ''e9d305dbcb11278e85b4aed3a9f6066c0faa6e2f'' \<and>
   utf8 [CHR 0xE1] = [0xC3, 0xA1]"
proof -
  have e: "generateToken opts plate = spec_generateToken plate (androidVersion opts) (secret opts)"
    for opts plate
    by (simp add: generateToken_def spec_generateToken_def createHmac_sha1_hex_def)
  have l: "length (generateToken opts plate) = 40"
    by (simp add: generateToken_def createHmac_sha1_hex_def length_hex length_hmac_sha1)
  have h: "list_all is_lower_hex (generateToken opts plate)"
    by (simp add: generateToken_def createHmac_sha1_hex_def hex_lower)
  have s: "spec_generateToken ''ABC1234'' ''8.1.0'' ''g8LzUadkEHs7mbRqbX5l'' =
           ''e9d305dbcb11278e85b4aed3a9f6066c0faa6e2f''"
    using e [of DEFAULT "''ABC1234''"] generateToken_example by (simp add: DEFAULT_def)
  from e l h s rfc2202_hmac generateToken_example utf8_two_bytes show ?thesis
    by (simp only: simp_thms)
qed

section \<open>Properties of the transport and of the search\<close>

lemmas stub_defs =
  answering_environment_def stub_environment_def stub_parseString_def stub_response_def stub_vehicle_def stub_refusal_def
  new_world_def

lemmas normalize_eval =
  normalize_response_def get_prop_def Error_message_def parseInt10_def is_whitespace_def
  is_digit_def digits_value_def digit_value_def

text \<open>
  \<open>retry\<close> on a transport that fails \<open>k\<close> times and then answers: it returns the
  answer after \<open>k + 1\<close> attempts, provided \<open>k\<close> more retries are allowed.
\<close>

lemma retry_success:
  assumes "\<forall>i<k. isl (transport env (calls w + i) \<lparr> req_url = url, req_options = options \<rparr>)"
    and "transport env (calls w + k) \<lparr> req_url = url, req_options = options \<rparr> = Inr data"
    and "attempt + int k \<le> maximumRetry opts"
  shows "retry env opts url options attempt delay w =
           (Inr data, w \<lparr> calls := calls w + Suc k,
                          trace := trace w @ attempts_trace \<lparr> req_url = url, req_options = options \<rparr> delay (Suc k) \<rparr>)"
  using assms
proof (induction k arbitrary: attempt delay w)
  case 0
  then show ?case
    by (subst retry.simps) (simp add: Let_def sleep_def axios_request_def)
next
  case (Suc k)
  let ?r = "\<lparr> req_url = url, req_options = options \<rparr>"
  let ?w2 = "w \<lparr> trace := trace w @ [Sleep delay], calls := Suc (calls w),
                 trace := trace w @ [Sleep delay] @ [Request ?r] \<rparr>"
  from Suc.prems(1) have "isl (transport env (calls w) ?r)"
    by (metis add.right_neutral zero_less_Suc)
  then obtain e where e: "transport env (calls w) ?r = Inl e"
    by (cases "transport env (calls w) ?r") auto
  have lt: "\<not> attempt \<ge> maximumRetry opts" using Suc.prems(3) by simp
  have fails: "\<forall>i<k. isl (transport env (calls ?w2 + i) ?r)"
    using Suc.prems(1) by auto
  have succ: "transport env (calls ?w2 + k) ?r = Inr data"
    using Suc.prems(2) by simp
  have le: "(attempt + 1) + int k \<le> maximumRetry opts" using Suc.prems(3) by simp
  have step: "retry env opts url options attempt delay w =
              retry env opts url options (attempt + 1) ((if delay = 0 then 1000 else delay) * 2) ?w2"
    using e lt by (subst retry.simps) (simp add: Let_def sleep_def axios_request_def)
  show ?case
    unfolding step Suc.IH [OF fails succ le]
    by simp
qed

text \<open>
  \<open>retry\<close> on a transport that fails until the retries are used up: it returns
  the error of the last attempt.
\<close>

lemma retry_failure:
  assumes "\<forall>i\<le>k. transport env (calls w + i) \<lparr> req_url = url, req_options = options \<rparr> = Inl (err i)"
    and "attempt + int k = maximumRetry opts"
  shows "retry env opts url options attempt delay w =
           (Inl (err k), w \<lparr> calls := calls w + Suc k,
                          trace := trace w @ attempts_trace \<lparr> req_url = url, req_options = options \<rparr> delay (Suc k) \<rparr>)"
  using assms
proof (induction k arbitrary: attempt delay w err)
  case 0
  then show ?case
    by (subst retry.simps) (simp add: Let_def sleep_def axios_request_def)
next
  case (Suc k)
  let ?r = "\<lparr> req_url = url, req_options = options \<rparr>"
  let ?w2 = "w \<lparr> trace := trace w @ [Sleep delay], calls := Suc (calls w),
                 trace := trace w @ [Sleep delay] @ [Request ?r] \<rparr>"
  from Suc.prems(1) have e: "transport env (calls w) ?r = Inl (err 0)"
    by (metis add.right_neutral le0)
  have lt: "\<not> attempt \<ge> maximumRetry opts" using Suc.prems(2) by simp
  have fails: "\<forall>i\<le>k. transport env (calls ?w2 + i) ?r = Inl (err (Suc i))"
    using Suc.prems(1) by auto
  have eq: "(attempt + 1) + int k = maximumRetry opts" using Suc.prems(2) by simp
  have step: "retry env opts url options attempt delay w =
              retry env opts url options (attempt + 1) ((if delay = 0 then 1000 else delay) * 2) ?w2"
    using e lt by (subst retry.simps) (simp add: Let_def sleep_def axios_request_def)
  show ?case
    unfolding step Suc.IH [OF fails eq]
    by simp
qed

lemma attempts_trace_pos:
  "0 < d \<Longrightarrow> attempts_trace r d n = concat (map (\<lambda>i. [Sleep (d * 2 ^ i), Request r]) [0..<n])"
proof (induction n arbitrary: d)
  case 0
  show ?case by simp
next
  case (Suc n)
  have "[0..<Suc n] = 0 # map Suc [0..<n]"
    by (simp add: upt_conv_Cons map_Suc_upt del: upt_Suc)
  then show ?case using Suc.prems Suc.IH [of "d * 2"]
    by (simp add: comp_def del: upt_Suc) (simp add: mult.assoc)
qed

lemma spec_delay_Suc: "spec_delay (Suc i) = 2000 * 2 ^ i"
  by (induction i) simp_all

lemma attempts_trace_spec: "attempts_trace r 0 n = spec_trace r n"
proof (cases n)
  case 0
  then show ?thesis by (simp add: spec_trace_def)
next
  case (Suc m)
  have "[0..<Suc m] = 0 # map Suc [0..<m]"
    by (simp add: upt_conv_Cons map_Suc_upt del: upt_Suc)
  then show ?thesis using Suc attempts_trace_pos [of 2000 r m]
    by (simp add: spec_trace_def comp_def spec_delay_Suc del: upt_Suc)
qed

text \<open>
  Validation and the generation of the envelope issue no request and do not
  sleep.
\<close>

lemma Math_random_world [simp]:
  "calls (snd (Math_random env w)) = calls w"
  "trace (snd (Math_random env w)) = trace w"
  "drawn (snd (Math_random env w)) = Suc (drawn w)"
  by (simp_all add: Math_random_def)

lemma generateRandomOctet_world [simp]:
  "calls (snd (generateRandomOctet env w)) = calls w"
  "trace (snd (generateRandomOctet env w)) = trace w"
  "drawn (snd (generateRandomOctet env w)) = Suc (drawn w)"
  by (simp_all add: generateRandomOctet_def split_def Let_def)

lemma generateIPAddress_world [simp]:
  "calls (snd (generateIPAddress env w)) = calls w"
  "trace (snd (generateIPAddress env w)) = trace w"
  by (simp_all add: generateIPAddress_def split_def Let_def)

lemma generateCoordinate_world [simp]:
  "calls (snd (generateCoordinate env w)) = calls w"
  "trace (snd (generateCoordinate env w)) = trace w"
  by (simp_all add: generateCoordinate_def split_def Let_def)

lemma generateLatitude_world [simp]:
  "calls (snd (generateLatitude env w)) = calls w"
  "trace (snd (generateLatitude env w)) = trace w"
  by (simp_all add: generateLatitude_def split_def Let_def)

lemma generateLongitude_world [simp]:
  "calls (snd (generateLongitude env w)) = calls w"
  "trace (snd (generateLongitude env w)) = trace w"
  by (simp_all add: generateLongitude_def split_def Let_def)

lemma generateBody_world:
  "calls (snd (generateBody env opts plate w)) = calls w"
  "trace (snd (generateBody env opts plate w)) = trace w"
  by (simp_all add: generateBody_def split_def Let_def split: sum.splits)

lemma search_generated:
  assumes "generateBody env opts plate w = (Inr x, w1)"
  shows "search env opts (Some plate) w = request env opts x w1"
    and "calls w1 = calls w" and "trace w1 = trace w"
  using assms generateBody_world [of env opts plate w] by (simp_all add: search_def)

lemma request_success:
  assumes "httpsAgent env opts = Inr agent"
    and "\<forall>i<k. \<forall>r. isl (transport env (calls w + i) r)"
    and "\<forall>r. transport env (calls w + k) r = Inr xml"
    and "int k \<le> maximumRetry opts"
  shows "\<exists>r w'. request env opts x w = (normalize_response env xml, w') \<and> calls w' = calls w + (k + 1) \<and>
           trace w' = trace w @ spec_trace r (k + 1) \<and>
           opt_data (req_options r) = x \<and> opt_httpsAgent (req_options r) = agent"
proof -
  have a: "0 + int k \<le> maximumRetry opts" using assms(4) by simp
  show ?thesis
    unfolding request_def Let_def
    apply (simp only: assms(1) sum.case)
    apply (subst retry_success [where k = k and data = xml, OF _ _ a])
    using assms(2) apply blast
    using assms(3) apply blast
    apply (simp add: attempts_trace_spec del: attempts_trace.simps)
    apply (rule exI, intro conjI, rule refl)
    apply simp_all
    done
qed

lemma request_failure:
  assumes "httpsAgent env opts = Inr agent"
    and "maximumRetry opts = int N" and "\<forall>i r. transport env i r = Inl (err i)"
  shows "\<exists>r w'. request env opts x w = (Inl (TransportError (err (calls w + N))), w') \<and>
           calls w' = calls w + (N + 1) \<and> trace w' = trace w @ spec_trace r (N + 1) \<and>
           opt_data (req_options r) = x \<and> opt_httpsAgent (req_options r) = agent"
proof -
  have a: "0 + int N = maximumRetry opts" using assms(2) by simp
  show ?thesis
    unfolding request_def Let_def
    apply (simp only: assms(1) sum.case)
    apply (subst retry_failure [where k = N and err = "\<lambda>i. err (calls w + i)", OF _ a])
    using assms(3) apply blast
    apply (simp add: attempts_trace_spec del: attempts_trace.simps)
    apply (rule exI, intro conjI, rule refl)
    apply simp_all
    done
qed

text \<open>
  The stages before the transport can fail: the builder throws on a character
  that XML forbids, and the constructor of the proxy agent throws on a malformed
  address. The search then fails with that error and the transport is not
  invoked.
\<close>

lemma search_builder_error:
  assumes "validate plate = (Inr p :: 'e error + string)" and "\<forall>d. buildObject env d = Inl m"
  shows "fst (search (env :: ('x, 'e) environment) opts (Some plate) w) = Inl (BuilderError m)"
    and "calls (snd (search env opts (Some plate) w)) = calls w"
    and "trace (snd (search env opts (Some plate) w)) = trace w"
  using assms by (simp_all add: search_def generateBody_def split_def Let_def)

lemma request_agent_error:
  assumes "httpsAgent env opts = Inl m"
  shows "request env opts x w = (Inl (AgentError m), w)"
  using assms by (simp add: request_def Let_def)

text \<open>
  Claim C3: with a transport that fails on its first \<open>k\<close> attempts and succeeds on
  attempt \<open>k + 1\<close>, where \<open>k\<close> is at most \<open>maximumRetry\<close>, the search succeeds, the
  transport is invoked exactly \<open>k + 1\<close> times, and the delays before the attempts
  are 0, 2000, 4000, 8000, ... ms. The search is one that reaches the transport
  and whose answer decodes: the plate validates and the builder produces the
  envelope \<open>x\<close>, the proxy agent, if any, is constructed, and the answer of the
  transport is a response that decodes to a vehicle. Every attempt sends the
  envelope \<open>x\<close>.
\<close>

theorem search_retries_until_success:
  assumes "generateBody env opts plate w = (Inr x, w1)"
    and "httpsAgent env opts = Inr agent"
    and "\<forall>i<k. \<forall>r. isl (transport env (calls w + i) r)"
    and "\<forall>r. transport env (calls w + k) r = Inr xml"
    and "int k \<le> maximumRetry opts"
    and "normalize_response env xml = Inr vehicle"
  shows "\<exists>r w'. search env opts (Some plate) w = (Inr vehicle, w') \<and>
           calls w' = calls w + (k + 1) \<and>
           trace w' = trace w @ spec_trace r (k + 1) \<and>
           opt_data (req_options r) = x \<and> opt_httpsAgent (req_options r) = agent"
proof -
  note g = search_generated [OF assms(1)]
  from request_success [of env opts agent k w1 xml x] assms(2,3,4,5) g(2)
  obtain r w' where "request env opts x w1 = (normalize_response env xml, w')"
    "calls w' = calls w1 + (k + 1)" "trace w' = trace w1 @ spec_trace r (k + 1)"
    "opt_data (req_options r) = x" "opt_httpsAgent (req_options r) = agent"
    by auto
  then show ?thesis using g assms(6) by auto
qed

theorem search_retries_until_success_witness:
  "\<exists>r w'. search (stub_environment (\<lambda>i. if i < 2 then Inl ''ECONNRESET'' else Inr ''vehicle''))
                  (configure (Some (no_args \<lparr> maximumRetry_arg := Some 3 \<rparr>)))
                  (Some ''ABC-1234'') new_world = (Inr (Obj stub_vehicle), w') \<and>
          calls w' = 3 \<and>
          trace w' = [Sleep 0, Request r, Sleep 2000, Request r, Sleep 4000, Request r] \<and>
          opt_data (req_options r) = ''envelope'' \<and> opt_httpsAgent (req_options r) = None"
proof -
  let ?env = "stub_environment (\<lambda>i. if i < 2 then Inl ''ECONNRESET'' else Inr ''vehicle'')"
  let ?opts = "configure (Some (no_args \<lparr> maximumRetry_arg := Some 3 \<rparr>))"
  have v: "validate ''ABC-1234'' = (Inr ''ABC1234'' :: string error + string)"
    by (simp add: validate_eval)
  have g: "generateBody ?env ?opts ''ABC-1234'' new_world =
             (Inr ''envelope'', \<lparr> drawn = 8, calls = 0, trace = [] \<rparr>)"
    by (simp add: generateBody_def v generateIPAddress_def generateRandomOctet_def
        generateLatitude_def generateLongitude_def generateCoordinate_def Math_random_def
        split_def Let_def stub_defs)
  have a: "httpsAgent ?env ?opts = Inr None"
    by (simp add: httpsAgent_def configure_def no_args_def or_string_opt_def DEFAULT_def)
  have f: "\<forall>i<2. \<forall>r. isl (transport ?env (calls (new_world :: string world) + i) r)"
    by (simp add: stub_defs)
  have s: "\<forall>r. transport ?env (calls (new_world :: string world) + 2) r = Inr ''vehicle''"
    by (simp add: stub_defs)
  have m: "int 2 \<le> maximumRetry ?opts"
    by (simp add: configure_def no_args_def or_number_def)
  have n: "normalize_response ?env ''vehicle'' = Inr (Obj stub_vehicle)"
    by (simp add: normalize_eval stub_defs)
  have t: "[0..<3] = [0, Suc 0, Suc (Suc 0)]"
    by (simp add: upt_rec)
  from search_retries_until_success [OF g a f s m n] show ?thesis
    by (simp add: spec_trace_def new_world_def t)
qed

text \<open>
  Claim C4: with \<open>maximumRetry = N\<close> and a transport that fails on every attempt,
  a search that reaches the transport (the plate validates and the builder
  produces the envelope \<open>x\<close>, the proxy agent, if any, is constructed) fails after
  exactly \<open>N + 1\<close> attempts, and its error is the error of the last attempt.
\<close>

theorem search_fails_after_retries:
  assumes "generateBody env opts plate w = (Inr x, w1)"
    and "httpsAgent env opts = Inr agent"
    and "maximumRetry opts = int N"
    and "\<forall>i r. transport env i r = Inl (err i)"
  shows "\<exists>r w'. search env opts (Some plate) w =
                   (Inl (TransportError (err (calls w + N))), w') \<and>
           calls w' = calls w + (N + 1) \<and>
           trace w' = trace w @ spec_trace r (N + 1) \<and>
           opt_data (req_options r) = x \<and> opt_httpsAgent (req_options r) = agent"
proof -
  note g = search_generated [OF assms(1)]
  from request_failure [OF assms(2,3,4), of x w1] g show ?thesis by auto
qed

theorem search_fails_after_retries_witness:
  "\<exists>r w'. search (stub_environment (\<lambda>i. Inl (''timeout '' @ string_of_nat i)))
                  (configure (Some (no_args \<lparr> maximumRetry_arg := Some 2 \<rparr>)))
                  (Some ''ABC-1234'') new_world = (Inl (TransportError ''timeout 2''), w') \<and>
          calls w' = 3 \<and>
          trace w' = [Sleep 0, Request r, Sleep 2000, Request r, Sleep 4000, Request r] \<and>
          opt_data (req_options r) = ''envelope'' \<and> opt_httpsAgent (req_options r) = None"
proof -
  let ?env = "stub_environment (\<lambda>i. Inl (''timeout '' @ string_of_nat i))"
  let ?opts = "configure (Some (no_args \<lparr> maximumRetry_arg := Some 2 \<rparr>))"
  have v: "validate ''ABC-1234'' = (Inr ''ABC1234'' :: string error + string)"
    by (simp add: validate_eval)
  have g: "generateBody ?env ?opts ''ABC-1234'' new_world =
             (Inr ''envelope'', \<lparr> drawn = 8, calls = 0, trace = [] \<rparr>)"
    by (simp add: generateBody_def v generateIPAddress_def generateRandomOctet_def
        generateLatitude_def generateLongitude_def generateCoordinate_def Math_random_def
        split_def Let_def stub_defs)
  have a: "httpsAgent ?env ?opts = Inr None"
    by (simp add: httpsAgent_def configure_def no_args_def or_string_opt_def DEFAULT_def)
  have m: "maximumRetry ?opts = int 2"
    by (simp add: configure_def no_args_def or_number_def)
  have f: "\<forall>i r. transport ?env i r = Inl (''timeout '' @ string_of_nat i)"
    by (simp add: stub_defs)
  have t: "[0..<3] = [0, Suc 0, Suc (Suc 0)]"
    by (simp add: upt_rec)
  from search_fails_after_retries [OF g a m f] show ?thesis
    by (simp add: spec_trace_def new_world_def t string_of_nat.simps)
qed

text \<open>
  Claim C10: a search without argument takes the empty string as the plate and
  fails in the validation; the world is unchanged, so no request was issued.
\<close>

theorem search_without_argument:
  "search env opts None w = (Inl (ValidationError invalid_plate_message), w)"
  by (simp add: search_def generateBody_def validate_eval)

section \<open>Properties of the response decoder\<close>

text \<open>
  \<open>parseInt10\<close> reads the decimal numeral of every integer back: these are
  numeric status codes.
\<close>

lemma digit_chars:
  "\<forall>k\<in>set [0..<10].
     is_digit (''0123456789'' ! k) \<and> digit_value (''0123456789'' ! k) = k"
  by (simp add: upt_rec is_digit_def digit_value_def)

lemma digit_char:
  assumes "k < 10"
  shows "is_digit (''0123456789'' ! k)" and "digit_value (''0123456789'' ! k) = k"
proof -
  have "k \<in> set [0..<10]" using assms by simp
  with digit_chars show "is_digit (''0123456789'' ! k)" and "digit_value (''0123456789'' ! k) = k"
    by blast+
qed

lemma digits_value_snoc: "digits_value (ds @ [c]) = 10 * digits_value ds + digit_value c"
  by (simp add: digits_value_def)

lemma string_of_nat_digits:
  "string_of_nat n \<noteq> [] \<and> list_all is_digit (string_of_nat n) \<and> digits_value (string_of_nat n) = n"
proof (induction n rule: string_of_nat.induct)
  case (1 n)
  show ?case
  proof (cases "n < 10")
    case True
    then show ?thesis
      by (subst (1 2 3) string_of_nat.simps) (simp add: digit_char digits_value_def)
  next
    case False
    have m: "n mod 10 < 10" by simp
    from 1 False have ih: "list_all is_digit (string_of_nat (n div 10))"
      "digits_value (string_of_nat (n div 10)) = n div 10" by simp_all
    show ?thesis
      using False ih digit_char [OF m]
      by (subst (1 2 3) string_of_nat.simps) (simp add: digits_value_snoc)
  qed
qed

lemma takeWhile_all: "list_all P xs \<Longrightarrow> takeWhile P xs = xs"
  by (induction xs) simp_all

lemma string_of_nat_head:
  "\<exists>c cs. string_of_nat n = c # cs \<and> is_digit c"
  using string_of_nat_digits [of n] by (cases "string_of_nat n") simp_all

lemma is_digit_not_special:
  "is_digit c \<Longrightarrow> \<not> is_whitespace c \<and> c \<noteq> CHR ''-'' \<and> c \<noteq> CHR ''+''"
  by (auto simp: is_digit_def is_whitespace_def)

lemma parseInt10_string_of_nat: "parseInt10 (string_of_nat n) = Some (int n)"
proof -
  obtain c cs where s: "string_of_nat n = c # cs" and c: "is_digit c"
    using string_of_nat_head by blast
  have t: "takeWhile is_digit (c # cs) = c # cs"
    using string_of_nat_digits [of n] s by (simp add: takeWhile_all)
  have v: "digits_value (c # cs) = n"
    using string_of_nat_digits [of n] s by simp
  show ?thesis
    using is_digit_not_special [OF c] v
    by (simp add: parseInt10_def s Let_def t del: takeWhile.simps)
qed

lemma parseInt10_string_of_int: "parseInt10 (string_of_int n) = Some n"
proof (cases "n < 0")
  case False
  then show ?thesis by (simp add: string_of_int_def parseInt10_string_of_nat)
next
  case True
  obtain c cs where s: "string_of_nat (nat (- n)) = c # cs" and c: "is_digit c"
    using string_of_nat_head by blast
  have t: "takeWhile is_digit (c # cs) = c # cs"
    using string_of_nat_digits [of "nat (- n)"] s by (simp add: takeWhile_all)
  have v: "digits_value (c # cs) = nat (- n)"
    using string_of_nat_digits [of "nat (- n)"] s by simp
  have w: "\<not> is_whitespace CHR ''-''" by (simp add: is_whitespace_def)
  show ?thesis
    using True v w
    by (simp add: parseInt10_def string_of_int_def s Let_def t del: takeWhile.simps)
qed

text \<open>
  Claim C6, as amended: for a response that parses to the expected nested shape,
  with a status code that reads as the integer \<open>n\<close> and a status message,
  \<open>normalize\<close> fails with the message when \<open>n\<close> is not zero, and returns the whole
  return value, the status code and the message among its fields, when \<open>n\<close> is
  zero.
\<close>

theorem normalize_response_status:
  assumes "parseString env returnedXML = Some doc"
    and "get_path doc [''soap:Envelope'', ''soap:Body'', ''ns2:getStatusResponse'', ''return''] = Some (Obj fs)"
    and "map_of fs ''codigoRetorno'' = Some (Str code)"
    and "map_of fs ''mensagemRetorno'' = Some (Str message)"
    and "parseInt10 code = Some n"
  shows "normalize_response env returnedXML =
           (if n \<noteq> 0 then Inl (ServiceError message) else Inr (Obj fs))"
  using assms by (simp add: normalize_response_def get_prop_def Error_message_def)

theorem normalize_response_status_witness:
  "normalize_response answering_environment ''vehicle'' = Inr (Obj stub_vehicle) \<and>
   normalize_response answering_environment ''refusal'' =
     Inl (ServiceError (''Placa inv'' @ [CHR 0xE1] @ ''lida''))"
proof -
  let ?env = "answering_environment"
  let ?path = "[''soap:Envelope'', ''soap:Body'', ''ns2:getStatusResponse'', ''return'']"
  have p0: "parseString ?env ''vehicle'' = Some (stub_response stub_vehicle)"
    and p7: "parseString ?env ''refusal'' = Some (stub_response stub_refusal)"
    by (simp_all add: answering_environment_def stub_environment_def stub_parseString_def)
  have g0: "get_path (stub_response stub_vehicle) ?path = Some (Obj stub_vehicle)"
    and g7: "get_path (stub_response stub_refusal) ?path = Some (Obj stub_refusal)"
    by (simp_all add: stub_response_def get_prop_def)
  have c0: "map_of stub_vehicle ''codigoRetorno'' = Some (Str ''0'')"
    and m0: "map_of stub_vehicle ''mensagemRetorno'' = Some (Str ''Sem erros.'')"
    and c7: "map_of stub_refusal ''codigoRetorno'' = Some (Str ''7'')"
    and m7: "map_of stub_refusal ''mensagemRetorno'' = Some (Str (''Placa inv'' @ [CHR 0xE1] @ ''lida''))"
    by (simp_all add: stub_vehicle_def stub_refusal_def)
  have i0: "parseInt10 ''0'' = Some 0" and i7: "parseInt10 ''7'' = Some 7"
    by (simp_all add: parseInt10_def is_whitespace_def is_digit_def digits_value_def digit_value_def)
  from normalize_response_status [OF p0 g0 c0 m0 i0] normalize_response_status [OF p7 g7 c7 m7 i7]
  show ?thesis by simp
qed

text \<open>
  Claim C6 as stated has the remaining fields returned. The value returned for
  the stubbed response with status 0 has three fields, of which one remains.
\<close>

theorem normalize_response_returns_status_fields:
  "normalize_response answering_environment ''vehicle'' = Inr (Obj stub_vehicle) \<and>
   spec_remaining_fields stub_vehicle = [(''modelo'', Str ''GOL'')] \<and>
   normalize_response answering_environment ''vehicle'' \<noteq>
     Inr (Obj (spec_remaining_fields stub_vehicle))"
  by (simp add: normalize_eval stub_defs spec_remaining_fields_def)

section \<open>Properties of the client identity and of the envelope\<close>

text \<open>
  The rounded product of a double in \<open>[0, 1)\<close> with 255 is below 255: the largest
  such double is \<open>1 - 2\<^sup>-\<^sup>5\<^sup>3\<close>, the doubles from 128 to 256 are \<open>2\<^sup>-\<^sup>4\<^sup>5\<close> apart,
  and rounding moves a value by at most half of that.
\<close>

lemma exponent_up_le: "x < 2 ^ Suc n \<Longrightarrow> exponent_up x \<le> int n"
proof (induction n arbitrary: x)
  case 0
  then show ?case by (subst exponent_up.simps) simp
next
  case (Suc n)
  show ?case
  proof (cases "2 \<le> x")
    case True
    have "x / 2 < 2 ^ Suc n" using Suc.prems by simp
    from Suc.IH [OF this] True show ?thesis by (subst exponent_up.simps) simp
  next
    case False
    then show ?thesis by (subst exponent_up.simps) simp
  qed
qed

lemma exponent_down_le: "exponent_down x \<le> 0"
proof (induction x rule: exponent_down.induct)
  case (1 x)
  show ?case
  proof (cases "0 < x \<and> x < 1")
    case True
    with 1 have "exponent_down (x * 2) \<le> 0" by simp
    with True show ?thesis by (subst exponent_down.simps) simp
  next
    case False
    then have "exponent_down x = 0" by (subst exponent_down.simps) auto
    then show ?thesis by simp
  qed
qed

lemma pow2_pos: "0 < pow2 k"
  by (simp add: pow2_def)

lemma pow2_le: "k \<le> - 45 \<Longrightarrow> pow2 k \<le> 1 / 2 ^ 45"
proof -
  assume k: "k \<le> - 45"
  then have "45 \<le> nat (- k)" by simp
  then have "(2::real) ^ 45 \<le> 2 ^ nat (- k)" by (rule power_increasing) simp
  then have "1 / (2::real) ^ nat (- k) \<le> 1 / 2 ^ 45"
    by (simp add: frac_le)
  then show ?thesis using k by (simp add: pow2_def)
qed

lemma double_ulp_pos: "0 < double_ulp x"
  by (simp add: double_ulp_def pow2_pos)

lemma double_ulp_le:
  assumes "x < 256"
  shows "double_ulp x \<le> 1 / 2 ^ 45"
proof -
  have "x < 2 ^ Suc 7" using assms by simp
  then have "exponent_up x \<le> 7" using exponent_up_le [of x 7] by simp
  moreover have "exponent_down x \<le> 0" by (rule exponent_down_le)
  ultimately have "max (if 1 \<le> x then exponent_up x else exponent_down x) (- 1022) - 52 \<le> - 45"
    by simp
  then show ?thesis unfolding double_ulp_def by (rule pow2_le)
qed

lemma round_half_even_le: "of_int (round_half_even q) \<le> q + 1 / 2"
proof -
  define f where "f = \<lfloor>q\<rfloor>"
  have a: "of_int f \<le> q" by (simp add: f_def)
  show ?thesis
  proof (cases "q - of_int f < 1 / 2")
    case True
    then have "round_half_even q = f" by (simp add: round_half_even_def f_def Let_def)
    with a show ?thesis by simp
  next
    case False
    have "round_half_even q \<le> f + 1" by (simp add: round_half_even_def f_def Let_def)
    then have "(of_int (round_half_even q) :: real) \<le> of_int (f + 1)" by (simp only: of_int_le_iff)
    then have "(of_int (round_half_even q) :: real) \<le> of_int f + 1" by simp
    with False show ?thesis by linarith
  qed
qed

lemma round_half_even_nonneg: "0 \<le> q \<Longrightarrow> 0 \<le> round_half_even q"
proof -
  assume "0 \<le> q"
  then have "0 \<le> \<lfloor>q\<rfloor>" by simp
  then show ?thesis by (auto simp: round_half_even_def Let_def)
qed

lemma double_round_nonneg: "0 \<le> x \<Longrightarrow> 0 \<le> double_round x"
proof -
  assume "0 \<le> x"
  then have "0 \<le> x / double_ulp x" using double_ulp_pos [of x] by simp
  then have "0 \<le> round_half_even (x / double_ulp x)" by (rule round_half_even_nonneg)
  then show ?thesis using double_ulp_pos [of x] by (simp add: double_round_def)
qed

lemma double_round_le: "double_round x \<le> x + double_ulp x / 2"
proof -
  let ?u = "double_ulp x"
  have u: "0 < ?u" by (rule double_ulp_pos)
  have "of_int (round_half_even (x / ?u)) * ?u \<le> (x / ?u + 1 / 2) * ?u"
    using round_half_even_le [of "x / ?u"] u by (simp only: mult_le_cancel_right_pos)
  also have "\<dots> = x + ?u / 2" using u by (simp add: field_simps)
  finally show ?thesis by (simp add: double_round_def)
qed

lemma double_round_product:
  assumes "0 \<le> x" and "x \<le> 255 - 255 / 2 ^ 53"
  shows "0 \<le> \<lfloor>double_round x\<rfloor>" and "\<lfloor>double_round x\<rfloor> \<le> 254"
proof -
  show "0 \<le> \<lfloor>double_round x\<rfloor>" using double_round_nonneg [OF assms(1)] by simp
  have "x < 256" using assms(2) by simp
  then have "double_ulp x \<le> 1 / 2 ^ 45" by (rule double_ulp_le)
  then have "double_round x \<le> x + (1 / 2 ^ 45) / 2" using double_round_le [of x] by simp
  also have "\<dots> \<le> 255 - 255 / 2 ^ 53 + (1 / 2 ^ 45) / 2" using assms(2) by simp
  also have "\<dots> < 255" by simp
  finally have "double_round x < 255" .
  then have "\<lfloor>double_round x\<rfloor> < 255" by (simp add: floor_less_iff)
  then show "\<lfloor>double_round x\<rfloor> \<le> 254" by simp
qed

lemma unit_double_le:
  assumes "0 \<le> r" and "r < 1" and "is_double r"
  shows "r \<le> 1 - 1 / 2 ^ 53"
proof (cases "r < 1 / 2")
  case True
  have "(1::real) / 2 \<le> 1 - 1 / 2 ^ 53" by simp
  with True show ?thesis by simp
next
  case False
  then have h: "1 / 2 \<le> r" by simp
  have e: "exponent_down r = - 1"
    using h assms(2) by (subst exponent_down.simps, subst exponent_down.simps) simp
  have u: "double_ulp r = 1 / 2 ^ 53"
    using assms(2) e by (simp add: double_ulp_def pow2_def)
  define k where "k = round_half_even (r / double_ulp r)"
  have r: "r = of_int k / 2 ^ 53"
    using assms(3) by (simp add: is_double_def double_round_def k_def u)
  then have "of_int k < (2::real) ^ 53" using assms(2) by simp
  then have "k < 2 ^ 53" by (metis of_int_less_iff of_int_numeral of_int_power)
  then have "k \<le> 2 ^ 53 - 1" by simp
  then have "(of_int k :: real) \<le> of_int (2 ^ 53 - 1)" by (simp only: of_int_le_iff)
  then have "(of_int k :: real) \<le> 2 ^ 53 - 1" by simp
  then have "of_int k / 2 ^ 53 \<le> ((2::real) ^ 53 - 1) / 2 ^ 53" by (simp add: divide_right_mono)
  also have "\<dots> = 1 - 1 / 2 ^ 53" by (simp add: field_simps)
  finally show ?thesis using r by simp
qed

lemma octet_range:
  assumes "0 \<le> r" and "r < 1" and "is_double r"
  shows "1 \<le> \<lfloor>double_round (r * 255)\<rfloor> + 1" and "\<lfloor>double_round (r * 255)\<rfloor> + 1 \<le> 255"
proof -
  have "r \<le> 1 - 1 / 2 ^ 53" using assms by (rule unit_double_le)
  then have le: "r * 255 \<le> 255 - 255 / 2 ^ 53" by simp
  have ge: "0 \<le> r * 255" using assms(1) by simp
  from double_round_product [OF ge le]
  show "1 \<le> \<lfloor>double_round (r * 255)\<rfloor> + 1" and "\<lfloor>double_round (r * 255)\<rfloor> + 1 \<le> 255"
    by simp_all
qed

text \<open>
  Claim C9: when the random source gives doubles in \<open>[0, 1)\<close>, each of the four
  octets of the address is an integer from 1 to 255, and each is computed from a
  draw of its own: the four octets come from four successive draws.
\<close>

theorem generateIPAddress_octets:
  assumes "\<forall>i. 0 \<le> random_source env i \<and> random_source env i < 1 \<and> is_double (random_source env i)"
  shows "\<exists>o1 o2 o3 o4.
           generateIPAddress env w =
             (string_of_int o1 @ ''.'' @ string_of_int o2 @ ''.'' @
              string_of_int o3 @ ''.'' @ string_of_int o4, w \<lparr> drawn := drawn w + 4 \<rparr>) \<and>
           o1 = \<lfloor>double_round (random_source env (drawn w) * 255)\<rfloor> + 1 \<and>
           o2 = \<lfloor>double_round (random_source env (drawn w + 1) * 255)\<rfloor> + 1 \<and>
           o3 = \<lfloor>double_round (random_source env (drawn w + 2) * 255)\<rfloor> + 1 \<and>
           o4 = \<lfloor>double_round (random_source env (drawn w + 3) * 255)\<rfloor> + 1 \<and>
           1 \<le> o1 \<and> o1 \<le> 255 \<and> 1 \<le> o2 \<and> o2 \<le> 255 \<and>
           1 \<le> o3 \<and> o3 \<le> 255 \<and> 1 \<le> o4 \<and> o4 \<le> 255"
proof -
  have r: "\<And>i. 0 \<le> random_source env i" "\<And>i. random_source env i < 1"
    "\<And>i. is_double (random_source env i)"
    using assms by auto
  have ip: "generateIPAddress env w =
     (string_of_int (\<lfloor>double_round (random_source env (drawn w) * 255)\<rfloor> + 1) @ ''.'' @
      string_of_int (\<lfloor>double_round (random_source env (drawn w + 1) * 255)\<rfloor> + 1) @ ''.'' @
      string_of_int (\<lfloor>double_round (random_source env (drawn w + 2) * 255)\<rfloor> + 1) @ ''.'' @
      string_of_int (\<lfloor>double_round (random_source env (drawn w + 3) * 255)\<rfloor> + 1),
      w \<lparr> drawn := drawn w + 4 \<rparr>)"
    by (simp add: generateIPAddress_def generateRandomOctet_def Math_random_def Let_def
        numeral_3_eq_3 numeral_2_eq_2 eval_nat_numeral)
  show ?thesis
    unfolding ip using octet_range [OF r(1) r(2) r(3)] by blast
qed

lemmas double_eval =
  is_double_def double_round_def double_ulp_def exponent_up.simps exponent_down.simps pow2_def
  round_half_even_def

theorem generateIPAddress_octets_witness:
  "(0::real) \<le> 1 / 2 \<and> (1::real) / 2 < 1 \<and> is_double (1 / 2) \<and>
   fst (generateIPAddress answering_environment new_world) = ''128.128.128.128''"
proof -
  have h: "is_double (1 / 2)"
    by (simp add: double_eval)
  have p: "double_round (255 / 2) = 255 / 2"
    by (simp add: double_eval)
  have r: "\<forall>i. 0 \<le> random_source answering_environment i \<and> random_source answering_environment i < 1 \<and>
             is_double (random_source answering_environment i)"
    using h by (simp add: answering_environment_def stub_environment_def)
  from generateIPAddress_octets [OF r, of new_world] h p show ?thesis
    by (auto simp: answering_environment_def stub_environment_def new_world_def string_of_int_def
        string_of_nat.simps)
qed



end
